theory Spec2Isabelle
  imports Main "HOL-Library.Word" "HOL-Library.Sublist"
begin

section \<open>Go values\<close>

text \<open>
  A Go \<open>string\<close> is a sequence of bytes and a Go \<open>byte\<close> is eight bits; both are read here
  as \<^typ>\<open>string\<close> and \<^typ>\<open>char\<close>. \<open>uint16\<close>, \<open>uint32\<close> and \<open>int32\<close> are machine words
  (\<open>int32\<close> is read with \<^const>\<open>sint\<close>).
\<close>

type_synonym byte = char
type_synonym uint16 = "16 word"
type_synonym uint32 = "32 word"
type_synonym int32 = "32 word"

text \<open>
  An error value handed back by a collaborator that is not part of \<open>conn.go\<close>: the operating
  system (\<open>os/user\<close>), the dialer, the byte stream (\<open>net.Conn\<close>) or the frame codec.
\<close>

datatype ext_error = ExtError string

section \<open>The frame codec, \<open>pgproto3\<close>\<close>

text \<open>
  Modelled from the spec: the package \<open>pgproto3\<close> (frame types, constants, the
  \<open>Frontend\<close> decoder) is imported by \<open>conn.go\<close> but is not among the sources. The types
  below carry exactly the fields \<open>conn.go\<close> reads or writes; the constants have the values of
  the PostgreSQL wire protocol, version 3.
\<close>

record ErrorResponse =
  Severity :: string
  Code :: string
  Message :: string
  Detail :: string
  Hint :: string
  Position :: int32
  InternalPosition :: int32
  InternalQuery :: string
  Where :: string
  SchemaName :: string
  TableName :: string
  ColumnName :: string
  DataTypeName :: string
  ConstraintName :: string
  File :: string
  Line :: int32
  Routine :: string

text \<open>
  Modelled from the spec: the backend frames. \<open>pgproto3_Authentication\<close> carries \<open>Type\<close> and
  the four bytes of \<open>Salt\<close>; \<open>pgproto3_BackendKeyData\<close> carries \<open>ProcessID\<close> and
  \<open>SecretKey\<close>; \<open>pgproto3_ReadyForQuery\<close> carries \<open>TxStatus\<close>; \<open>pgproto3_ParameterStatus\<close>
  carries \<open>Name\<close> and \<open>Value\<close>. Every other frame kind of the codec (notices, row data,
  \<dots>) is \<open>pgproto3_Other\<close>, told apart by a tag.
\<close>

datatype BackendMessage =
    pgproto3_Authentication uint32 "byte \<times> byte \<times> byte \<times> byte"
  | pgproto3_BackendKeyData uint32 uint32
  | pgproto3_ReadyForQuery byte
  | pgproto3_ParameterStatus string string
  | pgproto3_ErrorResponse ErrorResponse
  | pgproto3_Other nat

text \<open>
  Modelled from the spec: the two frontend frames \<open>conn.go\<close> builds, the startup frame
  (\<open>ProtocolVersion\<close>, \<open>Parameters\<close>) and the password response (\<open>Password\<close>).
\<close>

datatype FrontendMessage =
    pgproto3_StartupMessage uint32 "string \<rightharpoonup> string"
  | pgproto3_PasswordMessage string

text \<open>Modelled from the spec: the constants of \<open>pgproto3\<close> that \<open>conn.go\<close> names.\<close>

definition ProtocolVersionNumber :: uint32 where
  "ProtocolVersionNumber = 196608"

definition AuthTypeOk :: uint32 where
  "AuthTypeOk = 0"

definition AuthTypeCleartextPassword :: uint32 where
  "AuthTypeCleartextPassword = 3"

definition AuthTypeMD5Password :: uint32 where
  "AuthTypeMD5Password = 5"

text \<open>
  Modelled from the spec: the decoder \<open>pgproto3.Frontend\<close>. Its \<open>Receive\<close> hands back a pair
  (message, error) per call; what the \<open>n\<close>-th call hands back is decided by the server and the
  codec, so it is a parameter (\<open>incoming\<close>), and \<open>received\<close> counts the calls made so far.
\<close>

record Frontend =
  received :: nat
  incoming :: "nat \<Rightarrow> BackendMessage option \<times> ext_error option"

definition Receive :: "Frontend \<Rightarrow> Frontend \<times> BackendMessage option \<times> ext_error option" where
  "Receive fe = (fe\<lparr>received := Suc (received fe)\<rparr>, incoming fe (received fe))"

section \<open>The byte stream, \<open>net.Conn\<close>\<close>

text \<open>
  What is handed to one \<open>Write\<close> call: raw bytes, or the encoding \<open>msg.Encode(nil)\<close> of a
  frontend frame (the encoder belongs to the codec, so the frame stands for its bytes).
\<close>

datatype payload = Bytes string | Encoded FrontendMessage

datatype tls_Config = tls_Config nat

text \<open>
  The stream keeps the payload of every \<open>Write\<close> call made on it, oldest first, and the number
  of one-byte reads. Whether the \<open>n\<close>-th write fails and what the \<open>n\<close>-th read yields is decided
  by the transport and the server: both are parameters. \<open>tls_layers\<close> lists the TLS clients
  wrapped around the stream, innermost last.
\<close>

record NetConn =
  writes :: "payload list"
  write_result :: "nat \<Rightarrow> ext_error option"
  reads :: nat
  read_result :: "nat \<Rightarrow> ext_error + byte"
  tls_layers :: "tls_Config list"

definition Write :: "NetConn \<Rightarrow> payload \<Rightarrow> NetConn \<times> ext_error option" where
  "Write conn p = (conn\<lparr>writes := writes conn @ [p]\<rparr>, write_result conn (length (writes conn)))"

text \<open>\<open>io.ReadFull\<close> into a buffer of length one.\<close>

definition ReadFull1 :: "NetConn \<Rightarrow> NetConn \<times> (ext_error + byte)" where
  "ReadFull1 conn = (conn\<lparr>reads := Suc (reads conn)\<rparr>, read_result conn (reads conn))"

definition tls_Client :: "NetConn \<Rightarrow> tls_Config \<Rightarrow> NetConn" where
  "tls_Client conn tlsConfig = conn\<lparr>tls_layers := tlsConfig # tls_layers conn\<rparr>"

section \<open>Errors and configuration\<close>

record PgError =
  Severity :: string
  Code :: string
  Message :: string
  Detail :: string
  Hint :: string
  Position :: int32
  InternalPosition :: int32
  InternalQuery :: string
  Where :: string
  SchemaName :: string
  TableName :: string
  ColumnName :: string
  DataTypeName :: string
  ConstraintName :: string
  File :: string
  Line :: int32
  Routine :: string

definition Error :: "PgError \<Rightarrow> string" where
  "Error pe = PgError.Severity pe @ '': '' @ PgError.Message pe @ '' (SQLSTATE '' @ PgError.Code pe @ '')''"

text \<open>
  The error values \<open>Connect\<close> can return: the package-level \<open>ErrTLSRefused\<close>, a fresh
  \<open>errors.New\<close> text, a \<open>PgError\<close>, or a collaborator's error passed on unchanged.
\<close>

datatype go_error =
    ErrTLSRefused
  | errors_New string
  | PgErr PgError
  | External ext_error

type_synonym DialFunc = "string \<Rightarrow> string \<Rightarrow> ext_error + NetConn"

record ConnConfig =
  Host :: string
  Port :: uint16
  Database :: string
  User :: string
  Password :: string
  TLSConfig :: "tls_Config option"
  Dial :: "DialFunc option"
  RuntimeParams :: "string \<rightharpoonup> string"

text \<open>
  The collaborators outside the package: \<open>os.Stat\<close> (only its error is looked at),
  \<open>user.Current\<close> (its error, or the user name), the default dialer \<open>net.Dialer.Dial\<close> for a
  keep-alive period in nanoseconds, \<open>pgproto3.NewFrontend\<close> and the MD5 digest (the sixteen
  bytes \<open>md5.New\<close>, \<open>WriteString\<close>, \<open>Sum(nil)\<close> give for a string).
\<close>

record Env =
  os_Stat :: "string \<Rightarrow> ext_error option"
  user_Current :: "ext_error + string"
  net_Dialer_Dial :: "int \<Rightarrow> DialFunc"
  pgproto3_NewFrontend :: "NetConn \<Rightarrow> ext_error + Frontend"
  md5_Sum :: "string \<Rightarrow> string"

section \<open>Library functions that \<open>NetworkAddress\<close> calls\<close>

text \<open>\<open>strings.Contains\<close>: the second string occurs in the first.\<close>

fun strings_Contains :: "string \<Rightarrow> string \<Rightarrow> bool" where
  "strings_Contains [] substr = (substr = [])"
| "strings_Contains (c # s) substr = (prefix substr (c # s) \<or> strings_Contains s substr)"

text \<open>Decimal digits of a natural number, most significant first.\<close>

fun decimal :: "nat \<Rightarrow> string" where
  "decimal n =
     (if n < 10 then [''0123456789'' ! n]
      else decimal (n div 10) @ [''0123456789'' ! (n mod 10)])"

declare decimal.simps [simp del]

text \<open>\<open>strconv.FormatInt(i, 10)\<close>, and the verb \<open>%d\<close> of \<open>fmt.Sprintf\<close>.\<close>

definition strconv_FormatInt10 :: "int \<Rightarrow> string" where
  "strconv_FormatInt10 i = (if i < 0 then CHR ''-'' # decimal (nat (- i)) else decimal (nat i))"

text \<open>
  \<open>path/filepath\<close> on Unix, where the separator is \<open>/\<close>. \<open>Clean\<close> drops empty and \<open>.\<close>
  elements, lets \<open>..\<close> cancel the element before it (or drops it at the root, or keeps it at
  the front of a relative path), and turns the empty result into \<open>.\<close>. \<open>Join\<close> skips leading
  empty elements, joins the rest with the separator and cleans the result.
\<close>

fun split_sep :: "string \<Rightarrow> string list" where
  "split_sep [] = [[]]"
| "split_sep (c # s) =
     (if c = CHR ''/'' then [] # split_sep s
      else (case split_sep s of [] \<Rightarrow> [[c]] | e # es \<Rightarrow> (c # e) # es))"

fun strings_Join :: "string list \<Rightarrow> string \<Rightarrow> string" where
  "strings_Join [] sep = []"
| "strings_Join [e] sep = e"
| "strings_Join (e # es) sep = e @ sep @ strings_Join es sep"

fun clean_elems :: "bool \<Rightarrow> string list \<Rightarrow> string list \<Rightarrow> string list" where
  "clean_elems rooted out [] = out"
| "clean_elems rooted out (e # es) =
     (if e = [] \<or> e = ''.'' then clean_elems rooted out es
      else if e = ''..'' then
        (if out \<noteq> [] \<and> last out \<noteq> ''..'' then clean_elems rooted (butlast out) es
         else if \<not> rooted then clean_elems rooted (out @ [''..'']) es
         else clean_elems rooted out es)
      else clean_elems rooted (out @ [e]) es)"

definition filepath_Clean :: "string \<Rightarrow> string" where
  "filepath_Clean path =
     (if path = [] then ''.''
      else let rooted = (hd path = CHR ''/'');
               out = clean_elems rooted [] (split_sep path)
           in if rooted then CHR ''/'' # strings_Join out ''/''
              else if out = [] then ''.''
              else strings_Join out ''/'')"

definition filepath_Join :: "string list \<Rightarrow> string" where
  "filepath_Join elem =
     (case dropWhile (\<lambda>e. e = []) elem of
        [] \<Rightarrow> []
      | es \<Rightarrow> filepath_Clean (strings_Join es ''/''))"

section \<open>\<open>ConnConfig\<close>: address and defaults\<close>

definition NetworkAddress :: "Env \<Rightarrow> ConnConfig \<Rightarrow> string \<times> string" where
  "NetworkAddress env cc =
     (if os_Stat env (Host cc) = None then
        (''unix'',
         if \<not> strings_Contains (Host cc) ''/.s.PGSQL.''
         then filepath_Join [Host cc, ''.s.PGSQL.''] @ strconv_FormatInt10 (uint (Port cc))
         else Host cc)
      else (''tcp'', Host cc @ '':'' @ decimal (unat (Port cc))))"

definition time_Minute :: int where
  "time_Minute = 60 * 1000000000"

definition assignDefaults :: "Env \<Rightarrow> ConnConfig \<Rightarrow> ConnConfig \<times> go_error option" where
  "assignDefaults env cc =
     (case (if User cc = [] then
              (case user_Current env of
                 Inl err \<Rightarrow> Inl err
               | Inr username \<Rightarrow> Inr (cc\<lparr>User := username\<rparr>))
            else Inr cc) of
        Inl err \<Rightarrow> (cc, Some (External err))
      | Inr cc1 \<Rightarrow>
          let cc2 = (if Port cc1 = 0 then cc1\<lparr>Port := 5432\<rparr> else cc1);
              cc3 = (if Dial cc2 = None then cc2\<lparr>Dial := Some (net_Dialer_Dial env (5 * time_Minute))\<rparr>
                     else cc2)
          in (cc3, None))"

section \<open>\<open>PgConn\<close>\<close>

text \<open>
  The handle as it is from the point where \<open>Connect\<close> has stored the codec in it: the
  stream, the codec and the (allocated) parameter map are present.
\<close>

record PgConn =
  NetConn :: NetConn
  PID :: uint32
  SecretKey :: uint32
  parameterStatuses :: "string \<rightharpoonup> string"
  TxStatus :: byte
  Frontend :: Frontend
  Config :: ConnConfig

text \<open>
  \<open>binary.Write\<close> of \<open>int32\<close> values in big-endian order: four bytes each, most significant
  first, handed to the stream in one \<open>Write\<close>.
\<close>

definition BigEndian_int32 :: "int32 \<Rightarrow> string" where
  "BigEndian_int32 w =
     [char_of (unat (drop_bit 24 w)), char_of (unat (drop_bit 16 w)),
      char_of (unat (drop_bit 8 w)), char_of (unat w)]"

text \<open>
  \<open>startTLS\<close> reads and writes only the field \<open>NetConn\<close> of its receiver; the model takes
  that field and hands back its new value with the error.
\<close>

definition startTLS :: "NetConn \<Rightarrow> tls_Config \<Rightarrow> NetConn \<times> go_error option" where
  "startTLS conn tlsConfig =
     (case Write conn (Bytes (concat (map BigEndian_int32 [8, 80877103]))) of
        (conn1, Some err) \<Rightarrow> (conn1, Some (External err))
      | (conn1, None) \<Rightarrow>
          (case ReadFull1 conn1 of
             (conn2, Inl err) \<Rightarrow> (conn2, Some (External err))
           | (conn2, Inr response) \<Rightarrow>
               if response \<noteq> CHR ''S'' then (conn2, Some ErrTLSRefused)
               else (tls_Client conn2 tlsConfig, None)))"

text \<open>\<open>hex.EncodeToString\<close>: two characters of the table per byte, high half first.\<close>

definition hextable :: string where
  "hextable = ''0123456789abcdef''"

definition hex_EncodeToString :: "string \<Rightarrow> string" where
  "hex_EncodeToString src =
     concat (map (\<lambda>v. [hextable ! (of_char v div 16), hextable ! (of_char v mod 16)]) src)"

definition hexMD5 :: "Env \<Rightarrow> string \<Rightarrow> string" where
  "hexMD5 env s = hex_EncodeToString (md5_Sum env s)"

definition txPasswordMessage :: "PgConn \<Rightarrow> string \<Rightarrow> PgConn \<times> go_error option" where
  "txPasswordMessage pgConn password =
     (case Write (NetConn pgConn) (Encoded (pgproto3_PasswordMessage password)) of
        (conn, err) \<Rightarrow> (pgConn\<lparr>NetConn := conn\<rparr>, map_option External err))"

definition rxAuthenticationX ::
  "Env \<Rightarrow> PgConn \<Rightarrow> uint32 \<Rightarrow> byte \<times> byte \<times> byte \<times> byte \<Rightarrow> PgConn \<times> go_error option" where
  "rxAuthenticationX env c msg_Type msg_Salt =
     (if msg_Type = AuthTypeOk then (c, None)
      else if msg_Type = AuthTypeCleartextPassword then
        txPasswordMessage c (Password (Config c))
      else if msg_Type = AuthTypeMD5Password then
        (case msg_Salt of (s0, s1, s2, s3) \<Rightarrow>
           let digestedPassword =
                 ''md5'' @ hexMD5 env (hexMD5 env (Password (Config c) @ User (Config c)) @ [s0, s1, s2, s3])
           in txPasswordMessage c digestedPassword)
      else (c, Some (errors_New ''Received unknown authentication message'')))"

definition ReceiveMessage :: "PgConn \<Rightarrow> PgConn \<times> BackendMessage option \<times> go_error option" where
  "ReceiveMessage pgConn =
     (case Receive (Frontend pgConn) of
        (fe, msg, Some err) \<Rightarrow> (pgConn\<lparr>Frontend := fe\<rparr>, None, Some (External err))
      | (fe, msg, None) \<Rightarrow>
          ((case msg of
              Some (pgproto3_ReadyForQuery txStatus) \<Rightarrow> pgConn\<lparr>Frontend := fe, TxStatus := txStatus\<rparr>
            | Some (pgproto3_ParameterStatus name val) \<Rightarrow>
                pgConn\<lparr>Frontend := fe, parameterStatuses := (parameterStatuses pgConn)(name \<mapsto> val)\<rparr>
            | _ \<Rightarrow> pgConn\<lparr>Frontend := fe\<rparr>),
           msg, None))"

definition ParameterStatus :: "PgConn \<Rightarrow> string \<Rightarrow> string" where
  "ParameterStatus pgConn key = (case parameterStatuses pgConn key of None \<Rightarrow> [] | Some v \<Rightarrow> v)"

section \<open>\<open>Connect\<close>\<close>

text \<open>
  What a call of \<open>Connect\<close> leaves behind: the byte stream as it is when the call ends (none
  when the dial never produced one) with the two values returned, the handle (\<open>nil\<close> is
  \<^const>\<open>None\<close>) and the error; or a run-time panic, for the call of a \<open>nil\<close> dial function.
\<close>

datatype ConnectResult =
    Returns "NetConn option" "PgConn option" "go_error option"
  | Panics

text \<open>The startup frame (lines 143 to 156).\<close>

definition startupMsg :: "ConnConfig \<Rightarrow> FrontendMessage" where
  "startupMsg cc =
     (let Parameters0 = Map.empty ++ RuntimeParams cc;
          Parameters1 = Parameters0(''user'' \<mapsto> User cc);
          Parameters2 = (if Database cc \<noteq> [] then Parameters1(''database'' \<mapsto> Database cc)
                         else Parameters1)
      in pgproto3_StartupMessage ProtocolVersionNumber Parameters2)"

text \<open>
  \<open>Connect\<close> up to the write of the startup frame (lines 117 to 160): either the call has
  ended (\<^const>\<open>Inl\<close>), or the handle under construction enters the receive loop.
\<close>

definition Connect_open :: "Env \<Rightarrow> ConnConfig \<Rightarrow> ConnectResult + PgConn" where
  "Connect_open env cc0 =
     (case assignDefaults env cc0 of
        (cc, Some err) \<Rightarrow> Inl (Returns None None (Some err))
      | (cc, None) \<Rightarrow>
          (case Dial cc of
             None \<Rightarrow> Inl Panics
           | Some dial \<Rightarrow>
               (case dial (fst (NetworkAddress env cc)) (snd (NetworkAddress env cc)) of
                  Inl err \<Rightarrow> Inl (Returns None None (Some (External err)))
                | Inr conn \<Rightarrow>
                    (case (case TLSConfig cc of
                             None \<Rightarrow> (conn, None)
                           | Some tlsConfig \<Rightarrow> startTLS conn tlsConfig) of
                       (conn1, Some err) \<Rightarrow> Inl (Returns (Some conn1) None (Some err))
                     | (conn1, None) \<Rightarrow>
                         (case pgproto3_NewFrontend env conn1 of
                            Inl err \<Rightarrow> Inl (Returns (Some conn1) None (Some (External err)))
                          | Inr fe \<Rightarrow>
                              (case Write conn1 (Encoded (startupMsg cc)) of
                                 (conn2, Some err) \<Rightarrow>
                                   Inl (Returns (Some conn2) None (Some (External err)))
                               | (conn2, None) \<Rightarrow>
                                   Inr \<lparr>NetConn = conn2, PID = 0, SecretKey = 0,
                                        parameterStatuses = Map.empty, TxStatus = CHR 0x00,
                                        Frontend = fe, Config = cc\<rparr>))))))"

text \<open>
  One turn of the receive loop (lines 163 to 202): the call ends (\<^const>\<open>Inl\<close>) or the loop
  goes on with the updated handle.
\<close>

definition Connect_iteration :: "Env \<Rightarrow> PgConn \<Rightarrow> ConnectResult + PgConn" where
  "Connect_iteration env pgConn0 =
     (case ReceiveMessage pgConn0 of
        (pgConn, msg, Some err) \<Rightarrow> Inl (Returns (Some (NetConn pgConn)) None (Some err))
      | (pgConn, msg, None) \<Rightarrow>
          (case msg of
             Some (pgproto3_BackendKeyData processID secretKey) \<Rightarrow>
               Inr (pgConn\<lparr>PID := processID, SecretKey := secretKey\<rparr>)
           | Some (pgproto3_Authentication msg_Type msg_Salt) \<Rightarrow>
               (case rxAuthenticationX env pgConn msg_Type msg_Salt of
                  (pgConn1, Some err) \<Rightarrow> Inl (Returns (Some (NetConn pgConn1)) None (Some err))
                | (pgConn1, None) \<Rightarrow> Inr pgConn1)
           | Some (pgproto3_ReadyForQuery txStatus) \<Rightarrow>
               Inl (Returns (Some (NetConn pgConn)) (Some pgConn) None)
           | Some (pgproto3_ParameterStatus name val) \<Rightarrow> Inr pgConn
           | Some (pgproto3_ErrorResponse m) \<Rightarrow>
               Inl (Returns (Some (NetConn pgConn)) None
                     (Some (PgErr
                        \<lparr>Severity = ErrorResponse.Severity m,
                         Code = ErrorResponse.Code m,
                         Message = ErrorResponse.Message m,
                         Detail = ErrorResponse.Detail m,
                         Hint = ErrorResponse.Hint m,
                         Position = ErrorResponse.Position m,
                         InternalPosition = ErrorResponse.InternalPosition m,
                         InternalQuery = ErrorResponse.InternalQuery m,
                         Where = ErrorResponse.Where m,
                         SchemaName = ErrorResponse.SchemaName m,
                         TableName = ErrorResponse.TableName m,
                         ColumnName = ErrorResponse.ColumnName m,
                         DataTypeName = ErrorResponse.DataTypeName m,
                         ConstraintName = ErrorResponse.ConstraintName m,
                         File = ErrorResponse.File m,
                         Line = ErrorResponse.Line m,
                         Routine = ErrorResponse.Routine m\<rparr>)))
           | _ \<Rightarrow>
               Inl (Returns (Some (NetConn pgConn)) None (Some (errors_New ''unexpected message'')))))"

text \<open>The loop may go on for ever; \<^const>\<open>None\<close> is the call that never returns.\<close>

partial_function (option) Connect_loop :: "Env \<Rightarrow> PgConn \<Rightarrow> ConnectResult option" where
  "Connect_loop env pgConn =
     (case Connect_iteration env pgConn of
        Inl r \<Rightarrow> Some r
      | Inr pgConn1 \<Rightarrow> Connect_loop env pgConn1)"

definition Connect :: "Env \<Rightarrow> ConnConfig \<Rightarrow> ConnectResult option" where
  "Connect env cc =
     (case Connect_open env cc of
        Inl r \<Rightarrow> Some r
      | Inr pgConn \<Rightarrow> Connect_loop env pgConn)"

section \<open>Auxiliary notions for the statements\<close>

text \<open>The first \<open>n\<close> turns of the receive loop: the result if one of them ended the call,
  the handle after them otherwise.\<close>

fun turns :: "nat \<Rightarrow> Env \<Rightarrow> PgConn \<Rightarrow> ConnectResult + PgConn" where
  "turns 0 env pgConn = Inr pgConn"
| "turns (Suc n) env pgConn =
     (case Connect_iteration env pgConn of
        Inl r \<Rightarrow> Inl r
      | Inr pgConn1 \<Rightarrow> turns n env pgConn1)"

text \<open>\<open>n\<close> successive calls of \<open>ReceiveMessage\<close>: the handle after them and the messages
  they returned, oldest first.\<close>

fun ReceiveMessages :: "nat \<Rightarrow> PgConn \<Rightarrow> PgConn \<times> BackendMessage list" where
  "ReceiveMessages 0 pgConn = (pgConn, [])"
| "ReceiveMessages (Suc n) pgConn =
     (case ReceiveMessage pgConn of
        (pgConn1, msg, err) \<Rightarrow>
          (case ReceiveMessages n pgConn1 of
             (pgConn2, msgs) \<Rightarrow> (pgConn2, (case msg of None \<Rightarrow> [] | Some m \<Rightarrow> [m]) @ msgs)))"

text \<open>The value most recently reported for a name by the parameter-status frames of a list
  of messages (oldest first), if any.\<close>

fun last_reported :: "BackendMessage list \<Rightarrow> string \<Rightarrow> string option" where
  "last_reported [] key = None"
| "last_reported (m # msgs) key =
     (case last_reported msgs key of
        Some v \<Rightarrow> Some v
      | None \<Rightarrow>
          (case m of
             pgproto3_ParameterStatus name val \<Rightarrow> (if name = key then Some val else None)
           | _ \<Rightarrow> None))"

text \<open>
  The salted-hash credential in the words of the specification: the marker \<open>md5\<close>, then the
  lowercase hexadecimal text of the digest of (the lowercase hexadecimal text of the digest
  of password and user name, followed by the salt). The digest is a parameter.
\<close>

definition lower_hex_digit :: "nat \<Rightarrow> char" where
  "lower_hex_digit d = (if d < 10 then char_of (of_char CHR ''0'' + d) else char_of (of_char CHR ''a'' + (d - 10)))"

fun lower_hex :: "string \<Rightarrow> string" where
  "lower_hex [] = []"
| "lower_hex (b # bs) = lower_hex_digit (of_char b div 16) # lower_hex_digit (of_char b mod 16) # lower_hex bs"

definition salted_hash_credential :: "(string \<Rightarrow> string) \<Rightarrow> string \<Rightarrow> string \<Rightarrow> string \<Rightarrow> string" where
  "salted_hash_credential digest password username salt =
     ''md5'' @ lower_hex (digest (lower_hex (digest (password @ username)) @ salt))"

text \<open>
  A path of plain elements: not empty, and after an optional leading separator every element
  between separators is neither empty nor \<open>.\<close> nor \<open>..\<close> (so there is no doubled or trailing
  separator, and the path is not the root alone).
\<close>

definition plain_elem :: "string \<Rightarrow> bool" where
  "plain_elem e = (e \<noteq> [] \<and> e \<noteq> ''.'' \<and> e \<noteq> ''..'')"

definition plain_path :: "string \<Rightarrow> bool" where
  "plain_path path =
     (path \<noteq> [] \<and> list_all plain_elem (split_sep (if hd path = CHR ''/'' then tl path else path)))"

text \<open>The number a string of decimal digits stands for.\<close>

definition decimal_value :: "string \<Rightarrow> nat" where
  "decimal_value ds = foldl (\<lambda>n c. 10 * n + (of_char c - 48)) 0 ds"

section \<open>Sample environments\<close>

text \<open>
  A stream on which every write succeeds and every read yields the given byte, a codec that
  hands back the frames of a list and then fails, and an environment in which \<open>/tmp\<close> is the
  only existing path and the operating-system user is \<open>postgres\<close>. The digest of the sample
  environment is a stand-in (the first sixteen bytes of the zero-padded text).
\<close>

definition sample_stream :: "byte \<Rightarrow> NetConn" where
  "sample_stream reply =
     \<lparr>writes = [], write_result = (\<lambda>n. None), reads = 0,
      read_result = (\<lambda>n. Inr reply), tls_layers = []\<rparr>"

definition sample_frames ::
  "(BackendMessage option \<times> ext_error option) list \<Rightarrow> nat \<Rightarrow> BackendMessage option \<times> ext_error option" where
  "sample_frames script n = (if n < length script then script ! n else (None, Some (ExtError ''EOF'')))"

definition sample_Env :: "(BackendMessage option \<times> ext_error option) list \<Rightarrow> Env" where
  "sample_Env script =
     \<lparr>os_Stat = (\<lambda>path. if path = ''/tmp'' \<or> path = ''/tmp/'' \<or> path = ''/tmp/.s.PGSQL.5433''
                        then None else Some (ExtError ''no such file or directory'')),
      user_Current = Inr ''postgres'',
      net_Dialer_Dial = (\<lambda>keepAlive network address. Inr (sample_stream CHR ''S'')),
      pgproto3_NewFrontend = (\<lambda>conn. Inr \<lparr>received = 0, incoming = sample_frames script\<rparr>),
      md5_Sum = (\<lambda>s. take 16 (s @ replicate 16 CHR 0x00))\<rparr>"

definition sample_ConnConfig :: ConnConfig where
  "sample_ConnConfig =
     \<lparr>Host = ''/tmp'', Port = 0, Database = ''app'', User = [], Password = ''secret'',
      TLSConfig = None, Dial = None, RuntimeParams = [''application_name'' \<mapsto> ''demo'']\<rparr>"

definition sample_PgConn :: "(BackendMessage option \<times> ext_error option) list \<Rightarrow> PgConn" where
  "sample_PgConn script =
     \<lparr>NetConn = sample_stream CHR ''S'', PID = 0, SecretKey = 0, parameterStatuses = Map.empty,
      TxStatus = CHR 0x00, Frontend = \<lparr>received = 0, incoming = sample_frames script\<rparr>,
      Config = sample_ConnConfig\<lparr>User := ''postgres''\<rparr>\<rparr>"

text \<open>The handle with which \<open>Connect\<close> enters the receive loop for the sample configuration
  in the sample environment.\<close>

definition sample_opened :: "(BackendMessage option \<times> ext_error option) list \<Rightarrow> PgConn" where
  "sample_opened script =
     \<lparr>NetConn = (sample_stream CHR ''S'')
                 \<lparr>writes := [Encoded (startupMsg (sample_ConnConfig
                      \<lparr>User := ''postgres'', Port := 5432,
                       Dial := Some (net_Dialer_Dial (sample_Env script) (5 * time_Minute))\<rparr>))]\<rparr>,
      PID = 0, SecretKey = 0, parameterStatuses = Map.empty, TxStatus = CHR 0x00,
      Frontend = \<lparr>received = 0, incoming = sample_frames script\<rparr>,
      Config = sample_ConnConfig
                 \<lparr>User := ''postgres'', Port := 5432,
                  Dial := Some (net_Dialer_Dial (sample_Env script) (5 * time_Minute))\<rparr>\<rparr>"

definition sample_ErrorResponse :: ErrorResponse where
  "sample_ErrorResponse =
     \<lparr>ErrorResponse.Severity = ''FATAL'', ErrorResponse.Code = ''28P01'',
      ErrorResponse.Message = ''password authentication failed'',
      ErrorResponse.Detail = [], ErrorResponse.Hint = [],
      ErrorResponse.Position = 0, ErrorResponse.InternalPosition = 0,
      ErrorResponse.InternalQuery = [], ErrorResponse.Where = [],
      ErrorResponse.SchemaName = [], ErrorResponse.TableName = [],
      ErrorResponse.ColumnName = [], ErrorResponse.DataTypeName = [],
      ErrorResponse.ConstraintName = [], ErrorResponse.File = ''auth.c'',
      ErrorResponse.Line = 302, ErrorResponse.Routine = ''auth_failed''\<rparr>"

section \<open>The receive primitive\<close>

text \<open>
  C10. Whatever the state of the session, when the codec's receive fails, \<open>ReceiveMessage\<close>
  returns no message and that error, and the handle is as before except that the codec has
  made one more call: the transaction status and the parameter map are untouched.
\<close>

theorem ReceiveMessage_failure_keeps_state:
  assumes "Receive (Frontend pgConn) = (fe, msg, Some err)"
  shows "ReceiveMessage pgConn = (pgConn\<lparr>Frontend := fe\<rparr>, None, Some (External err))
     \<and> TxStatus (fst (ReceiveMessage pgConn)) = TxStatus pgConn
     \<and> parameterStatuses (fst (ReceiveMessage pgConn)) = parameterStatuses pgConn"
  using assms by (simp add: ReceiveMessage_def)

theorem ReceiveMessage_failure_keeps_state_witness:
  "Receive (Frontend ((sample_PgConn [])
       \<lparr>PID := 4242, SecretKey := 99, TxStatus := CHR ''T'',
        parameterStatuses := [''server_version'' \<mapsto> ''9.6'', ''client_encoding'' \<mapsto> ''UTF8'']\<rparr>)) =
     (\<lparr>received = 1, incoming = sample_frames []\<rparr>, None, Some (ExtError ''EOF''))
   \<and> ReceiveMessage ((sample_PgConn [])
       \<lparr>PID := 4242, SecretKey := 99, TxStatus := CHR ''T'',
        parameterStatuses := [''server_version'' \<mapsto> ''9.6'', ''client_encoding'' \<mapsto> ''UTF8'']\<rparr>) =
       ((sample_PgConn [])
          \<lparr>PID := 4242, SecretKey := 99, TxStatus := CHR ''T'',
           parameterStatuses := [''server_version'' \<mapsto> ''9.6'', ''client_encoding'' \<mapsto> ''UTF8''],
           Frontend := \<lparr>received = 1, incoming = sample_frames []\<rparr>\<rparr>,
        None, Some (External (ExtError ''EOF'')))
   \<and> TxStatus (fst (ReceiveMessage ((sample_PgConn [])
       \<lparr>PID := 4242, SecretKey := 99, TxStatus := CHR ''T'',
        parameterStatuses := [''server_version'' \<mapsto> ''9.6'', ''client_encoding'' \<mapsto> ''UTF8'']\<rparr>))) = CHR ''T''
   \<and> CHR ''T'' \<noteq> CHR 0x00
   \<and> parameterStatuses (fst (ReceiveMessage ((sample_PgConn [])
       \<lparr>PID := 4242, SecretKey := 99, TxStatus := CHR ''T'',
        parameterStatuses := [''server_version'' \<mapsto> ''9.6'', ''client_encoding'' \<mapsto> ''UTF8'']\<rparr>))) =
       [''server_version'' \<mapsto> ''9.6'', ''client_encoding'' \<mapsto> ''UTF8'']
   \<and> parameterStatuses (fst (ReceiveMessage ((sample_PgConn [])
       \<lparr>PID := 4242, SecretKey := 99, TxStatus := CHR ''T'',
        parameterStatuses := [''server_version'' \<mapsto> ''9.6'', ''client_encoding'' \<mapsto> ''UTF8'']\<rparr>)))
         ''server_version'' = Some ''9.6''
   \<and> Receive (Frontend ((sample_PgConn
          [(Some (pgproto3_ReadyForQuery CHR ''I''), Some (ExtError ''short read''))])
       \<lparr>TxStatus := CHR ''T'', parameterStatuses := [''server_version'' \<mapsto> ''9.6'']\<rparr>)) =
     (\<lparr>received = 1,
       incoming = sample_frames [(Some (pgproto3_ReadyForQuery CHR ''I''), Some (ExtError ''short read''))]\<rparr>,
      Some (pgproto3_ReadyForQuery CHR ''I''), Some (ExtError ''short read''))
   \<and> snd (ReceiveMessage ((sample_PgConn
          [(Some (pgproto3_ReadyForQuery CHR ''I''), Some (ExtError ''short read''))])
       \<lparr>TxStatus := CHR ''T'', parameterStatuses := [''server_version'' \<mapsto> ''9.6'']\<rparr>)) =
       (None, Some (External (ExtError ''short read'')))
   \<and> TxStatus (fst (ReceiveMessage ((sample_PgConn
          [(Some (pgproto3_ReadyForQuery CHR ''I''), Some (ExtError ''short read''))])
       \<lparr>TxStatus := CHR ''T'', parameterStatuses := [''server_version'' \<mapsto> ''9.6'']\<rparr>))) = CHR ''T''
   \<and> parameterStatuses (fst (ReceiveMessage ((sample_PgConn
          [(Some (pgproto3_ReadyForQuery CHR ''I''), Some (ExtError ''short read''))])
       \<lparr>TxStatus := CHR ''T'', parameterStatuses := [''server_version'' \<mapsto> ''9.6'']\<rparr>)))
         ''server_version'' = Some ''9.6''"
  using ReceiveMessage_failure_keeps_state
          [of "(sample_PgConn [])
                 \<lparr>PID := 4242, SecretKey := 99, TxStatus := CHR ''T'',
                  parameterStatuses := [''server_version'' \<mapsto> ''9.6'', ''client_encoding'' \<mapsto> ''UTF8'']\<rparr>"
              "\<lparr>received = 1, incoming = sample_frames []\<rparr>" None "ExtError ''EOF''"]
        ReceiveMessage_failure_keeps_state
          [of "(sample_PgConn [(Some (pgproto3_ReadyForQuery CHR ''I''), Some (ExtError ''short read''))])
                 \<lparr>TxStatus := CHR ''T'', parameterStatuses := [''server_version'' \<mapsto> ''9.6'']\<rparr>"
              "\<lparr>received = 1,
                incoming = sample_frames [(Some (pgproto3_ReadyForQuery CHR ''I''), Some (ExtError ''short read''))]\<rparr>"
              "Some (pgproto3_ReadyForQuery CHR ''I'')" "ExtError ''short read''"]
  by (simp add: sample_PgConn_def sample_frames_def Receive_def)

lemma ReceiveMessage_decoded:
  assumes "Receive (Frontend pgConn) = (fe, Some m, None)"
  shows "ReceiveMessage pgConn =
          ((case m of
              pgproto3_ReadyForQuery txStatus \<Rightarrow> pgConn\<lparr>Frontend := fe, TxStatus := txStatus\<rparr>
            | pgproto3_ParameterStatus name val \<Rightarrow>
                pgConn\<lparr>Frontend := fe, parameterStatuses := (parameterStatuses pgConn)(name \<mapsto> val)\<rparr>
            | _ \<Rightarrow> pgConn\<lparr>Frontend := fe\<rparr>), Some m, None)"
  using assms by (cases m) (simp_all add: ReceiveMessage_def)

lemma ReceiveMessage_lookup:
  "ParameterStatus (fst (ReceiveMessage pgConn)) key =
     (case fst (snd (ReceiveMessage pgConn)) of
        Some (pgproto3_ParameterStatus name val) \<Rightarrow> if name = key then val else ParameterStatus pgConn key
      | _ \<Rightarrow> ParameterStatus pgConn key)"
  by (simp add: ReceiveMessage_def ParameterStatus_def Receive_def split: prod.splits option.splits BackendMessage.splits)

lemma ReceiveMessages_lookup:
  "ParameterStatus (fst (ReceiveMessages n pgConn)) key =
     (case last_reported (snd (ReceiveMessages n pgConn)) key of
        Some v \<Rightarrow> v
      | None \<Rightarrow> ParameterStatus pgConn key)"
proof (induction n arbitrary: pgConn)
  case 0
  show ?case by simp
next
  case (Suc n)
  obtain c1 msg err where r: "ReceiveMessage pgConn = (c1, msg, err)"
    by (cases "ReceiveMessage pgConn") auto
  obtain c2 msgs where rs: "ReceiveMessages n c1 = (c2, msgs)"
    by (cases "ReceiveMessages n c1") auto
  have one: "ParameterStatus c1 key =
     (case msg of
        Some (pgproto3_ParameterStatus name val) \<Rightarrow> if name = key then val else ParameterStatus pgConn key
      | _ \<Rightarrow> ParameterStatus pgConn key)"
    using ReceiveMessage_lookup [of pgConn key] r by simp
  have rest: "ParameterStatus c2 key = (case last_reported msgs key of Some v \<Rightarrow> v | None \<Rightarrow> ParameterStatus c1 key)"
    using Suc.IH [of c1] rs by simp
  show ?case
    using r rs one rest
    by (cases msg) (auto split: option.splits BackendMessage.splits)
qed

text \<open>
  C8. When the codec has decoded a message, \<open>ReceiveMessage\<close> returns that very message and
  no error. The transaction status of the session becomes the status of the frame exactly
  when the message is a ready-for-query frame, the parameter map gets the reported name and
  value exactly when it is a parameter-status frame, and nothing else of the handle changes
  (the codec has made one more call). After any number of receives a lookup by
  \<open>ParameterStatus\<close> gives the value most recently reported for the name, or what the handle
  had before when the name was not reported; a name absent from the map reads as the empty
  string.
\<close>

theorem ReceiveMessage_tracks_state:
  assumes "Receive (Frontend pgConn) = (fe, Some m, None)"
  shows "snd (ReceiveMessage pgConn) = (Some m, None)
     \<and> TxStatus (fst (ReceiveMessage pgConn)) =
         (case m of pgproto3_ReadyForQuery txStatus \<Rightarrow> txStatus | _ \<Rightarrow> TxStatus pgConn)
     \<and> parameterStatuses (fst (ReceiveMessage pgConn)) =
         (case m of
            pgproto3_ParameterStatus name val \<Rightarrow> (parameterStatuses pgConn)(name \<mapsto> val)
          | _ \<Rightarrow> parameterStatuses pgConn)
     \<and> fst (ReceiveMessage pgConn) =
         pgConn\<lparr>Frontend := fe,
                TxStatus := TxStatus (fst (ReceiveMessage pgConn)),
                parameterStatuses := parameterStatuses (fst (ReceiveMessage pgConn))\<rparr>
     \<and> ParameterStatus (fst (ReceiveMessages n pgConn)) key =
         (case last_reported (snd (ReceiveMessages n pgConn)) key of
            Some v \<Rightarrow> v
          | None \<Rightarrow> ParameterStatus pgConn key)
     \<and> (parameterStatuses pgConn key = None \<longrightarrow> ParameterStatus pgConn key = [])
     \<and> (parameterStatuses pgConn key = None \<and> last_reported (snd (ReceiveMessages n pgConn)) key = None \<longrightarrow>
          ParameterStatus (fst (ReceiveMessages n pgConn)) key = [])"
proof -
  note d = ReceiveMessage_decoded [OF assms]
  have 1: "snd (ReceiveMessage pgConn) = (Some m, None)"
    by (simp add: d)
  have 2: "TxStatus (fst (ReceiveMessage pgConn)) =
         (case m of pgproto3_ReadyForQuery txStatus \<Rightarrow> txStatus | _ \<Rightarrow> TxStatus pgConn)"
    by (cases m) (simp_all add: d)
  have 3: "parameterStatuses (fst (ReceiveMessage pgConn)) =
         (case m of
            pgproto3_ParameterStatus name val \<Rightarrow> (parameterStatuses pgConn)(name \<mapsto> val)
          | _ \<Rightarrow> parameterStatuses pgConn)"
    by (cases m) (simp_all add: d)
  have 4: "fst (ReceiveMessage pgConn) =
         pgConn\<lparr>Frontend := fe,
                TxStatus := TxStatus (fst (ReceiveMessage pgConn)),
                parameterStatuses := parameterStatuses (fst (ReceiveMessage pgConn))\<rparr>"
    by (cases m) (simp_all add: d)
  have 6: "parameterStatuses pgConn key = None \<longrightarrow> ParameterStatus pgConn key = []"
    by (simp add: ParameterStatus_def)
  have 7: "parameterStatuses pgConn key = None \<and> last_reported (snd (ReceiveMessages n pgConn)) key = None \<longrightarrow>
          ParameterStatus (fst (ReceiveMessages n pgConn)) key = []"
    using ReceiveMessages_lookup [of n pgConn key] by (simp add: ParameterStatus_def)
  show ?thesis
    using 1 2 3 4 6 7 ReceiveMessages_lookup [of n pgConn key] by blast
qed

theorem ReceiveMessage_tracks_state_witness:
  "Receive (Frontend (sample_PgConn [(Some (pgproto3_ParameterStatus ''server_version'' ''9.6''), None)])) =
      (\<lparr>received = 1, incoming = sample_frames [(Some (pgproto3_ParameterStatus ''server_version'' ''9.6''), None)]\<rparr>,
       Some (pgproto3_ParameterStatus ''server_version'' ''9.6''), None)
   \<and> snd (ReceiveMessage (sample_PgConn [(Some (pgproto3_ParameterStatus ''server_version'' ''9.6''), None)])) =
      (Some (pgproto3_ParameterStatus ''server_version'' ''9.6''), None)
   \<and> ParameterStatus (fst (ReceiveMessages 1 (sample_PgConn [(Some (pgproto3_ParameterStatus ''server_version'' ''9.6''), None)]))) ''server_version'' = ''9.6''
   \<and> ParameterStatus (sample_PgConn [(Some (pgproto3_ParameterStatus ''server_version'' ''9.6''), None)]) ''server_version'' = []
   \<and> ParameterStatus (fst (ReceiveMessages 1 (sample_PgConn [(Some (pgproto3_ParameterStatus ''server_version'' ''9.6''), None)]))) ''client_encoding'' = []"
  using ReceiveMessage_tracks_state
          [of "sample_PgConn [(Some (pgproto3_ParameterStatus ''server_version'' ''9.6''), None)]"
              "\<lparr>received = 1, incoming = sample_frames [(Some (pgproto3_ParameterStatus ''server_version'' ''9.6''), None)]\<rparr>"
              "pgproto3_ParameterStatus ''server_version'' ''9.6''" 1 "''server_version''"]
        ReceiveMessage_tracks_state
          [of "sample_PgConn [(Some (pgproto3_ParameterStatus ''server_version'' ''9.6''), None)]"
              "\<lparr>received = 1, incoming = sample_frames [(Some (pgproto3_ParameterStatus ''server_version'' ''9.6''), None)]\<rparr>"
              "pgproto3_ParameterStatus ''server_version'' ''9.6''" 1 "''client_encoding''"]
  by (simp add: sample_PgConn_def sample_frames_def Receive_def ReceiveMessage_def)

section \<open>TLS negotiation\<close>

lemma startTLS_request:
  "BigEndian_int32 8 @ BigEndian_int32 80877103 =
     [CHR 0x00, CHR 0x00, CHR 0x00, CHR 0x08, CHR 0x04, CHR 0xD2, CHR 0x16, CHR 0x2F]"
  by (simp add: BigEndian_int32_def drop_bit_eq_div char_of_eq_iff)

text \<open>
  C5. In a TLS negotiation whose request was written and whose single response byte was read:
  when the byte is anything other than \<open>S\<close>, \<open>startTLS\<close> returns \<open>ErrTLSRefused\<close>, which is no
  collaborator's (input or output) error, and the stream is left as it was apart from the
  eight request bytes written and the one byte read: no TLS client is wrapped around it, so
  no handshake can start. When the byte is \<open>S\<close>, the stream is replaced by a TLS client with
  the configured policy and no error is returned.
\<close>

theorem startTLS_reply:
  assumes "write_result conn (length (writes conn)) = None"
      and "read_result conn (reads conn) = Inr response"
  shows "(response \<noteq> CHR ''S'' \<longrightarrow>
            startTLS conn tlsConfig =
              (conn\<lparr>writes := writes conn @ [Bytes [CHR 0x00, CHR 0x00, CHR 0x00, CHR 0x08, CHR 0x04, CHR 0xD2, CHR 0x16, CHR 0x2F]],
                    reads := Suc (reads conn)\<rparr>,
               Some ErrTLSRefused)
          \<and> tls_layers (fst (startTLS conn tlsConfig)) = tls_layers conn
          \<and> (\<forall>e. snd (startTLS conn tlsConfig) \<noteq> Some (External e)))
     \<and> (response = CHR ''S'' \<longrightarrow>
            startTLS conn tlsConfig =
              (tls_Client
                 (conn\<lparr>writes := writes conn @ [Bytes [CHR 0x00, CHR 0x00, CHR 0x00, CHR 0x08, CHR 0x04, CHR 0xD2, CHR 0x16, CHR 0x2F]],
                       reads := Suc (reads conn)\<rparr>) tlsConfig,
               None)
          \<and> tls_layers (fst (startTLS conn tlsConfig)) = tlsConfig # tls_layers conn)"
  using assms by (simp add: startTLS_def Write_def ReadFull1_def tls_Client_def startTLS_request)

theorem startTLS_reply_witness:
  "write_result (sample_stream CHR ''N'') (length (writes (sample_stream CHR ''N''))) = None
   \<and> read_result (sample_stream CHR ''N'') (reads (sample_stream CHR ''N'')) = Inr CHR ''N''
   \<and> snd (startTLS (sample_stream CHR ''N'') (tls_Config 1)) = Some ErrTLSRefused
   \<and> tls_layers (fst (startTLS (sample_stream CHR ''N'') (tls_Config 1))) = []
   \<and> read_result (sample_stream CHR ''S'') (reads (sample_stream CHR ''S'')) = Inr CHR ''S''
   \<and> snd (startTLS (sample_stream CHR ''S'') (tls_Config 1)) = None
   \<and> tls_layers (fst (startTLS (sample_stream CHR ''S'') (tls_Config 1))) = [tls_Config 1]"
  using startTLS_reply [of "sample_stream CHR ''N''" "CHR ''N''" "tls_Config 1"]
        startTLS_reply [of "sample_stream CHR ''S''" "CHR ''S''" "tls_Config 1"]
  by (simp add: sample_stream_def tls_Client_def)

section \<open>Authentication\<close>

lemma hextable_digit:
  assumes "d < 16"
  shows "lower_hex_digit d = hextable ! d"
proof -
  from assms have "d = 0 \<or> d = 1 \<or> d = 2 \<or> d = 3 \<or> d = 4 \<or> d = 5 \<or> d = 6 \<or> d = 7
    \<or> d = 8 \<or> d = 9 \<or> d = 10 \<or> d = 11 \<or> d = 12 \<or> d = 13 \<or> d = 14 \<or> d = 15"
    by arith
  then show ?thesis
    by (elim disjE) (simp_all add: hextable_def lower_hex_digit_def char_of_eq_iff)
qed


lemma hex_EncodeToString_lower_hex: "hex_EncodeToString src = lower_hex src"
proof (induction src)
  case Nil
  show ?case by (simp add: hex_EncodeToString_def)
next
  case (Cons b bs)
  have hi: "(of_char b :: nat) div 16 < 16"
    by (rule less_mult_imp_div_less) simp
  have lo: "(of_char b :: nat) mod 16 < 16"
    by simp
  from Cons show ?case
    by (simp add: hex_EncodeToString_def hextable_digit [OF hi] hextable_digit [OF lo])
qed

lemma lower_hex_length: "length (lower_hex bs) = 2 * length bs"
  by (induction bs) simp_all

lemma lower_hex_digit_in_table:
  assumes "d < 16"
  shows "lower_hex_digit d \<in> set ''0123456789abcdef''"
proof -
  have "d < length hextable"
    using assms by (simp add: hextable_def)
  then have "hextable ! d \<in> set hextable"
    by (rule nth_mem)
  then have "lower_hex_digit d \<in> set hextable"
    by (simp only: hextable_digit [OF assms])
  then show ?thesis
    by (simp only: hextable_def)
qed

lemma lower_hex_chars: "set (lower_hex bs) \<subseteq> set ''0123456789abcdef''"
proof (induction bs)
  case Nil
  show ?case by simp
next
  case (Cons b bs)
  have hi: "(of_char b :: nat) div 16 < 16"
    by (rule less_mult_imp_div_less) simp
  have lo: "(of_char b :: nat) mod 16 < 16"
    by simp
  show ?case
    using Cons lower_hex_digit_in_table [OF hi] lower_hex_digit_in_table [OF lo]
    by simp
qed

lemma rxAuthenticationX_MD5:
  "rxAuthenticationX env c AuthTypeMD5Password (s0, s1, s2, s3) =
     (c\<lparr>NetConn := (NetConn c)\<lparr>writes := writes (NetConn c) @
          [Encoded (pgproto3_PasswordMessage
             (salted_hash_credential (md5_Sum env) (Password (Config c)) (User (Config c)) [s0, s1, s2, s3]))]\<rparr>\<rparr>,
      map_option External (write_result (NetConn c) (length (writes (NetConn c)))))"
  by (simp add: rxAuthenticationX_def AuthTypeMD5Password_def AuthTypeOk_def AuthTypeCleartextPassword_def
        txPasswordMessage_def Write_def hexMD5_def hex_EncodeToString_lower_hex salted_hash_credential_def)


lemma rxAuthenticationX_Cleartext:
  "rxAuthenticationX env c AuthTypeCleartextPassword salt =
     (c\<lparr>NetConn := (NetConn c)\<lparr>writes := writes (NetConn c) @
          [Encoded (pgproto3_PasswordMessage (Password (Config c)))]\<rparr>\<rparr>,
      map_option External (write_result (NetConn c) (length (writes (NetConn c)))))"
  by (simp add: rxAuthenticationX_def AuthTypeOk_def AuthTypeCleartextPassword_def
        txPasswordMessage_def Write_def)

lemma rxAuthenticationX_Ok: "rxAuthenticationX env c AuthTypeOk salt = (c, None)"
  by (simp add: rxAuthenticationX_def)

lemma rxAuthenticationX_unknown:
  assumes "msg_Type \<noteq> AuthTypeOk" "msg_Type \<noteq> AuthTypeCleartextPassword" "msg_Type \<noteq> AuthTypeMD5Password"
  shows "rxAuthenticationX env c msg_Type salt =
           (c, Some (errors_New ''Received unknown authentication message''))"
  using assms by (simp add: rxAuthenticationX_def)

text \<open>
  C7. The authentication dispatch makes exactly one write, of a password-response frame, when
  the challenge asks for the cleartext password (the frame holds the configured password as
  it is) or for the salted hash; the error it returns is that of the write. It writes nothing
  and succeeds for the no-further-action challenge. For every other discriminant it writes
  nothing and fails with the error \<open>Received unknown authentication message\<close>.
\<close>

theorem rxAuthenticationX_frames_written:
  "rxAuthenticationX env c AuthTypeOk salt = (c, None)
   \<and> rxAuthenticationX env c AuthTypeCleartextPassword salt =
       (c\<lparr>NetConn := (NetConn c)\<lparr>writes := writes (NetConn c) @
            [Encoded (pgproto3_PasswordMessage (Password (Config c)))]\<rparr>\<rparr>,
        map_option External (write_result (NetConn c) (length (writes (NetConn c)))))
   \<and> (\<exists>credential.
         rxAuthenticationX env c AuthTypeMD5Password salt =
           (c\<lparr>NetConn := (NetConn c)\<lparr>writes := writes (NetConn c) @
                [Encoded (pgproto3_PasswordMessage credential)]\<rparr>\<rparr>,
            map_option External (write_result (NetConn c) (length (writes (NetConn c))))))
   \<and> (msg_Type \<noteq> AuthTypeOk \<and> msg_Type \<noteq> AuthTypeCleartextPassword \<and> msg_Type \<noteq> AuthTypeMD5Password \<longrightarrow>
         rxAuthenticationX env c msg_Type salt =
           (c, Some (errors_New ''Received unknown authentication message'')))"
proof -
  obtain s0 s1 s2 s3 where salt: "salt = (s0, s1, s2, s3)"
    by (cases salt) auto
  show ?thesis
    using rxAuthenticationX_Ok [of env c salt] rxAuthenticationX_Cleartext [of env c salt]
      rxAuthenticationX_MD5 [of env c s0 s1 s2 s3] rxAuthenticationX_unknown [of msg_Type env c salt]
    unfolding salt by blast
qed

theorem rxAuthenticationX_frames_written_witness:
  "(7 :: uint32) \<noteq> AuthTypeOk \<and> (7 :: uint32) \<noteq> AuthTypeCleartextPassword \<and> (7 :: uint32) \<noteq> AuthTypeMD5Password
   \<and> rxAuthenticationX (sample_Env []) (sample_PgConn []) 7 (CHR ''s'', CHR ''a'', CHR ''l'', CHR ''t'') =
       (sample_PgConn [], Some (errors_New ''Received unknown authentication message''))
   \<and> writes (NetConn (fst (rxAuthenticationX (sample_Env []) (sample_PgConn []) AuthTypeCleartextPassword
                              (CHR ''s'', CHR ''a'', CHR ''l'', CHR ''t'')))) =
       [Encoded (pgproto3_PasswordMessage ''secret'')]
   \<and> writes (NetConn (fst (rxAuthenticationX (sample_Env []) (sample_PgConn []) AuthTypeOk
                              (CHR ''s'', CHR ''a'', CHR ''l'', CHR ''t'')))) = []"
  using rxAuthenticationX_frames_written
          [of "sample_Env []" "sample_PgConn []" "(CHR ''s'', CHR ''a'', CHR ''l'', CHR ''t'')" 7]
  by (simp add: AuthTypeOk_def AuthTypeCleartextPassword_def AuthTypeMD5Password_def
        sample_PgConn_def sample_ConnConfig_def sample_stream_def)

text \<open>
  C6. For the salted-hash challenge the credential written is the one of the specification:
  the marker \<open>md5\<close> followed by the lowercase hexadecimal digest of (the lowercase hexadecimal
  digest of password and user name, followed by the four salt bytes). The code's
  \<open>"md5" + hexMD5(hexMD5(password + user) + salt)\<close> is that text; it starts with the three
  characters of the marker, has two characters per digest byte after it, all of them among
  \<open>0123456789abcdef\<close>, and two handles with the same password and user send the same
  credential for the same salt.
\<close>

theorem salted_hash_credential_sent:
  "rxAuthenticationX env c AuthTypeMD5Password (s0, s1, s2, s3) =
     (c\<lparr>NetConn := (NetConn c)\<lparr>writes := writes (NetConn c) @
          [Encoded (pgproto3_PasswordMessage
             (salted_hash_credential (md5_Sum env) (Password (Config c)) (User (Config c)) [s0, s1, s2, s3]))]\<rparr>\<rparr>,
      map_option External (write_result (NetConn c) (length (writes (NetConn c)))))
   \<and> ''md5'' @ hexMD5 env (hexMD5 env (password @ username) @ salt) =
       salted_hash_credential (md5_Sum env) password username salt
   \<and> take 3 (salted_hash_credential digest password username salt) = ''md5''
   \<and> length (salted_hash_credential digest password username salt) =
       3 + 2 * length (digest (lower_hex (digest (password @ username)) @ salt))
   \<and> set (drop 3 (salted_hash_credential digest password username salt)) \<subseteq> set ''0123456789abcdef''
   \<and> (Password (Config c') = Password (Config c) \<and> User (Config c') = User (Config c) \<longrightarrow>
        last (writes (NetConn (fst (rxAuthenticationX env c' AuthTypeMD5Password (s0, s1, s2, s3))))) =
        last (writes (NetConn (fst (rxAuthenticationX env c AuthTypeMD5Password (s0, s1, s2, s3))))))"
proof -
  have 2: "''md5'' @ hexMD5 env (hexMD5 env (password @ username) @ salt) =
       salted_hash_credential (md5_Sum env) password username salt"
    by (simp add: hexMD5_def hex_EncodeToString_lower_hex salted_hash_credential_def)
  have 3: "take 3 (salted_hash_credential digest password username salt) = ''md5''"
    by (simp add: salted_hash_credential_def)
  have 4: "length (salted_hash_credential digest password username salt) =
       3 + 2 * length (digest (lower_hex (digest (password @ username)) @ salt))"
    by (simp add: salted_hash_credential_def lower_hex_length)
  have 5: "set (drop 3 (salted_hash_credential digest password username salt)) \<subseteq> set ''0123456789abcdef''"
    using lower_hex_chars [of "digest (lower_hex (digest (password @ username)) @ salt)"]
    by (simp add: salted_hash_credential_def)
  have 6: "Password (Config c') = Password (Config c) \<and> User (Config c') = User (Config c) \<longrightarrow>
        last (writes (NetConn (fst (rxAuthenticationX env c' AuthTypeMD5Password (s0, s1, s2, s3))))) =
        last (writes (NetConn (fst (rxAuthenticationX env c AuthTypeMD5Password (s0, s1, s2, s3)))))"
    by (simp add: rxAuthenticationX_MD5)
  show ?thesis
    using rxAuthenticationX_MD5 [of env c s0 s1 s2 s3] 2 3 4 5 6 by blast
qed

theorem salted_hash_credential_sent_witness:
  "writes (NetConn (fst (rxAuthenticationX (sample_Env []) (sample_PgConn []) AuthTypeMD5Password
                           (CHR ''s'', CHR ''a'', CHR ''l'', CHR ''t'')))) =
     [Encoded (pgproto3_PasswordMessage ''md537333635363337323635373437303666'')]
   \<and> Password (Config (sample_PgConn [(None, None)])) = Password (Config (sample_PgConn []))
   \<and> User (Config (sample_PgConn [(None, None)])) = User (Config (sample_PgConn []))
   \<and> last (writes (NetConn (fst (rxAuthenticationX (sample_Env []) (sample_PgConn [(None, None)])
                                  AuthTypeMD5Password (CHR ''s'', CHR ''a'', CHR ''l'', CHR ''t''))))) =
       Encoded (pgproto3_PasswordMessage ''md537333635363337323635373437303666'')"
  using salted_hash_credential_sent
          [of "sample_Env []" "sample_PgConn []" "CHR ''s''" "CHR ''a''" "CHR ''l''" "CHR ''t''"
              "''secret''" "''postgres''" "''salt''" "md5_Sum (sample_Env [])" "sample_PgConn [(None, None)]"]
  by (simp add: sample_PgConn_def sample_ConnConfig_def sample_stream_def sample_Env_def
        salted_hash_credential_def lower_hex_digit_def char_of_eq_iff)

section \<open>The handshake\<close>

lemma turns_continue:
  "turns n env pgConn0 = Inr pgConn \<Longrightarrow> Connect_loop env pgConn0 = Connect_loop env pgConn"
proof (induction n arbitrary: pgConn0)
  case 0
  then show ?case by simp
next
  case (Suc n)
  then obtain pgConn1 where step: "Connect_iteration env pgConn0 = Inr pgConn1"
    and rest: "turns n env pgConn1 = Inr pgConn"
    by (cases "Connect_iteration env pgConn0") auto
  have "Connect_loop env pgConn0 = Connect_loop env pgConn1"
    by (subst Connect_loop.simps) (simp add: step)
  also have "\<dots> = Connect_loop env pgConn"
    using Suc.IH [OF rest] .
  finally show ?case .
qed

lemma iteration_return:
  "Connect_iteration env pgConn = Inl r \<Longrightarrow> Connect_loop env pgConn = Some r"
  by (subst Connect_loop.simps) simp

lemma turns_return:
  "turns n env pgConn0 = Inl r \<Longrightarrow> Connect_loop env pgConn0 = Some r"
proof (induction n arbitrary: pgConn0)
  case 0
  then show ?case by simp
next
  case (Suc n)
  show ?case
  proof (cases "Connect_iteration env pgConn0")
    case (Inl r')
    with Suc.prems have "r' = r" by simp
    with Inl show ?thesis by (simp add: iteration_return)
  next
    case (Inr pgConn1)
    with Suc.prems have rest: "turns n env pgConn1 = Inl r" by simp
    have "Connect_loop env pgConn0 = Connect_loop env pgConn1"
      by (subst Connect_loop.simps) (simp add: Inr)
    with Suc.IH [OF rest] show ?thesis by simp
  qed
qed

lemma loop_return_turns:
  "Connect_loop env pgConn0 = Some r \<Longrightarrow> \<exists>n pgConn. turns n env pgConn0 = Inr pgConn \<and> Connect_iteration env pgConn = Inl r"
proof (induction rule: Connect_loop.raw_induct [rotated 1, consumes 1])
  case (1 loop env pgConn0 r)
  show ?case
  proof (cases "Connect_iteration env pgConn0")
    case (Inl r')
    with 1(2) have "r' = r" by simp
    with Inl have "turns 0 env pgConn0 = Inr pgConn0 \<and> Connect_iteration env pgConn0 = Inl r"
      by simp
    then show ?thesis by blast
  next
    case (Inr pgConn1)
    with 1(2) have "loop env pgConn1 = Some r" by simp
    from 1(1) [OF this] obtain n pgConn where "turns n env pgConn1 = Inr pgConn"
      and "Connect_iteration env pgConn = Inl r" by blast
    with Inr have "turns (Suc n) env pgConn0 = Inr pgConn \<and> Connect_iteration env pgConn = Inl r"
      by simp
    then show ?thesis by blast
  qed
qed

lemma iteration_results:
  assumes "Connect_iteration env pgConn = Inl r"
  shows "(\<exists>stream err. r = Returns stream None (Some err))
       \<or> (\<exists>txStatus.
            r = Returns (Some (NetConn pgConn))
                  (Some (pgConn\<lparr>Frontend := (Frontend pgConn)\<lparr>received := Suc (received (Frontend pgConn))\<rparr>,
                               TxStatus := txStatus\<rparr>)) None
            \<and> incoming (Frontend pgConn) (received (Frontend pgConn)) =
                (Some (pgproto3_ReadyForQuery txStatus), None))"
  using assms
  by (auto simp add: Connect_iteration_def ReceiveMessage_def Receive_def
        split: prod.splits option.splits BackendMessage.splits)

lemma assignDefaults_Dial:
  "assignDefaults env cc = (cc1, None) \<Longrightarrow> Dial cc1 \<noteq> None"
  by (auto simp add: assignDefaults_def Let_def split: sum.splits if_splits)

lemma open_results:
  assumes "Connect_open env cc = Inl r"
  shows "\<exists>stream err. r = Returns stream None (Some err)"
proof -
  obtain cc1 e where d: "assignDefaults env cc = (cc1, e)"
    by (cases "assignDefaults env cc") auto
  show ?thesis
  proof (cases e)
    case (Some err)
    with d assms show ?thesis by (auto simp add: Connect_open_def)
  next
    case None
    with d obtain dial where "Dial cc1 = Some dial"
      using assignDefaults_Dial [of env cc cc1] by auto
    with d None assms show ?thesis
      by (auto simp add: Connect_open_def split: sum.splits prod.splits option.splits)
  qed
qed

lemma Connect_results:
  assumes "Connect env cc = Some r"
  shows "(\<exists>stream err. r = Returns stream None (Some err))
       \<or> (\<exists>pgConn k txStatus.
            r = Returns (Some (NetConn pgConn)) (Some pgConn) None
            \<and> received (Frontend pgConn) = Suc k
            \<and> incoming (Frontend pgConn) k = (Some (pgproto3_ReadyForQuery txStatus), None)
            \<and> TxStatus pgConn = txStatus)"
proof (cases "Connect_open env cc")
  case (Inl r')
  with assms have "r' = r" by (simp add: Connect_def)
  with Inl open_results [of env cc r] show ?thesis by blast
next
  case (Inr pgConn0)
  with assms have "Connect_loop env pgConn0 = Some r" by (simp add: Connect_def)
  then obtain n pgConn where it: "Connect_iteration env pgConn = Inl r"
    using loop_return_turns by blast
  from iteration_results [OF it] show ?thesis
  proof
    assume "\<exists>stream err. r = Returns stream None (Some err)"
    then show ?thesis by blast
  next
    assume "\<exists>txStatus.
            r = Returns (Some (NetConn pgConn))
                  (Some (pgConn\<lparr>Frontend := (Frontend pgConn)\<lparr>received := Suc (received (Frontend pgConn))\<rparr>,
                               TxStatus := txStatus\<rparr>)) None
            \<and> incoming (Frontend pgConn) (received (Frontend pgConn)) =
                (Some (pgproto3_ReadyForQuery txStatus), None)"
    then obtain txStatus where
      r: "r = Returns (Some (NetConn pgConn))
                  (Some (pgConn\<lparr>Frontend := (Frontend pgConn)\<lparr>received := Suc (received (Frontend pgConn))\<rparr>,
                               TxStatus := txStatus\<rparr>)) None"
      and f: "incoming (Frontend pgConn) (received (Frontend pgConn)) =
                (Some (pgproto3_ReadyForQuery txStatus), None)"
      by blast
    let ?h = "pgConn\<lparr>Frontend := (Frontend pgConn)\<lparr>received := Suc (received (Frontend pgConn))\<rparr>,
                               TxStatus := txStatus\<rparr>"
    have "r = Returns (Some (NetConn ?h)) (Some ?h) None
            \<and> received (Frontend ?h) = Suc (received (Frontend pgConn))
            \<and> incoming (Frontend ?h) (received (Frontend pgConn)) = (Some (pgproto3_ReadyForQuery txStatus), None)
            \<and> TxStatus ?h = txStatus"
      using r f by simp
    then show ?thesis by blast
  qed
qed

lemma Connect_in_loop:
  assumes "Connect_open env cc = Inr pgConn0" and "turns n env pgConn0 = Inr pgConn"
    and "Connect_iteration env pgConn = Inl r"
  shows "Connect env cc = Some r"
  using assms turns_continue [of n env pgConn0 pgConn] iteration_return [of env pgConn r]
  by (simp add: Connect_def)

lemma sample_open:
  "Connect_open (sample_Env script) sample_ConnConfig = Inr (sample_opened script)"
  by (simp add: Connect_open_def assignDefaults_def sample_Env_def sample_ConnConfig_def
        sample_stream_def Write_def Let_def sample_opened_def)

lemma iteration_Authentication:
  assumes "incoming (Frontend c) (received (Frontend c)) = (Some (pgproto3_Authentication msg_Type msg_Salt), None)"
  shows "Connect_iteration env c =
     (case rxAuthenticationX env (c\<lparr>Frontend := (Frontend c)\<lparr>received := Suc (received (Frontend c))\<rparr>\<rparr>) msg_Type msg_Salt of
        (c1, Some err) \<Rightarrow> Inl (Returns (Some (NetConn c1)) None (Some err))
      | (c1, None) \<Rightarrow> Inr c1)"
  using assms by (simp add: Connect_iteration_def ReceiveMessage_def Receive_def)

lemma iteration_BackendKeyData:
  assumes "incoming (Frontend c) (received (Frontend c)) = (Some (pgproto3_BackendKeyData processID secretKey), None)"
  shows "Connect_iteration env c =
     Inr (c\<lparr>Frontend := (Frontend c)\<lparr>received := Suc (received (Frontend c))\<rparr>,
            PID := processID, SecretKey := secretKey\<rparr>)"
  using assms by (simp add: Connect_iteration_def ReceiveMessage_def Receive_def)

lemma iteration_ReadyForQuery:
  assumes "incoming (Frontend c) (received (Frontend c)) = (Some (pgproto3_ReadyForQuery txStatus), None)"
  shows "Connect_iteration env c =
     Inl (Returns (Some (NetConn c))
            (Some (c\<lparr>Frontend := (Frontend c)\<lparr>received := Suc (received (Frontend c))\<rparr>,
                     TxStatus := txStatus\<rparr>)) None)"
  using assms by (simp add: Connect_iteration_def ReceiveMessage_def Receive_def)

text \<open>
  C1. For every configuration whose connection attempt reaches the receive loop: when the
  codec hands the loop an authentication frame of type \<open>AuthTypeOk\<close>, then a backend-key-data
  frame, then a ready-for-query frame, \<open>Connect\<close> returns, with no error and with a handle
  whose \<open>PID\<close> and \<open>SecretKey\<close> are the \<open>ProcessID\<close> and \<open>SecretKey\<close> of the backend-key-data
  frame (and whose transaction status is that of the ready-for-query frame).
\<close>

theorem Connect_startup_sequence:
  assumes "Connect_open env cc = Inr pgConn0"
    and "incoming (Frontend pgConn0) (received (Frontend pgConn0)) =
           (Some (pgproto3_Authentication AuthTypeOk salt), None)"
    and "incoming (Frontend pgConn0) (Suc (received (Frontend pgConn0))) =
           (Some (pgproto3_BackendKeyData processID secretKey), None)"
    and "incoming (Frontend pgConn0) (Suc (Suc (received (Frontend pgConn0)))) =
           (Some (pgproto3_ReadyForQuery txStatus), None)"
  shows "\<exists>pgConn. Connect env cc = Some (Returns (Some (NetConn pgConn)) (Some pgConn) None)
           \<and> PID pgConn = processID \<and> SecretKey pgConn = secretKey
           \<and> pgConn = pgConn0\<lparr>Frontend := (Frontend pgConn0)\<lparr>received := received (Frontend pgConn0) + 3\<rparr>,
                               PID := processID, SecretKey := secretKey, TxStatus := txStatus\<rparr>"
proof -
  let ?c1 = "pgConn0\<lparr>Frontend := (Frontend pgConn0)\<lparr>received := Suc (received (Frontend pgConn0))\<rparr>\<rparr>"
  let ?c2 = "?c1\<lparr>Frontend := (Frontend ?c1)\<lparr>received := Suc (received (Frontend ?c1))\<rparr>,
                  PID := processID, SecretKey := secretKey\<rparr>"
  let ?c3 = "?c2\<lparr>Frontend := (Frontend ?c2)\<lparr>received := Suc (received (Frontend ?c2))\<rparr>,
                  TxStatus := txStatus\<rparr>"
  have 1: "Connect_iteration env pgConn0 = Inr ?c1"
    using iteration_Authentication [OF assms(2), of env] by (simp add: rxAuthenticationX_def)
  have 2: "Connect_iteration env ?c1 = Inr ?c2"
    using assms(3) by (intro iteration_BackendKeyData) simp
  have 3: "Connect_iteration env ?c2 = Inl (Returns (Some (NetConn ?c2)) (Some ?c3) None)"
    using assms(4) by (intro iteration_ReadyForQuery) simp
  have "turns (Suc (Suc 0)) env pgConn0 = Inr ?c2"
    by (simp add: 1 2)
  then have "Connect env cc = Some (Returns (Some (NetConn ?c2)) (Some ?c3) None)"
    by (rule Connect_in_loop [OF assms(1) _ 3])
  then have "Connect env cc = Some (Returns (Some (NetConn ?c3)) (Some ?c3) None)
           \<and> PID ?c3 = processID \<and> SecretKey ?c3 = secretKey
           \<and> ?c3 = pgConn0\<lparr>Frontend := (Frontend pgConn0)\<lparr>received := received (Frontend pgConn0) + 3\<rparr>,
                               PID := processID, SecretKey := secretKey, TxStatus := txStatus\<rparr>"
    by simp
  then show ?thesis by blast
qed

theorem Connect_startup_sequence_witness:
  "\<exists>pgConn. Connect (sample_Env [(Some (pgproto3_Authentication AuthTypeOk (CHR ''s'', CHR ''a'', CHR ''l'', CHR ''t'')), None),
                                    (Some (pgproto3_BackendKeyData 4242 99), None),
                                    (Some (pgproto3_ReadyForQuery CHR ''I''), None)]) sample_ConnConfig =
                Some (Returns (Some (NetConn pgConn)) (Some pgConn) None)
      \<and> PID pgConn = 4242 \<and> SecretKey pgConn = 99 \<and> TxStatus pgConn = CHR ''I''"
proof -
  let ?script = "[(Some (pgproto3_Authentication AuthTypeOk (CHR ''s'', CHR ''a'', CHR ''l'', CHR ''t'')), None),
                  (Some (pgproto3_BackendKeyData 4242 99), None),
                  (Some (pgproto3_ReadyForQuery CHR ''I''), None)]"
  from Connect_startup_sequence [OF sample_open [of ?script],
          of "(CHR ''s'', CHR ''a'', CHR ''l'', CHR ''t'')" 4242 99 "CHR ''I''"]
  obtain pgConn where "Connect (sample_Env ?script) sample_ConnConfig = Some (Returns (Some (NetConn pgConn)) (Some pgConn) None)"
    and "PID pgConn = 4242" and "SecretKey pgConn = 99"
    and "pgConn = (sample_opened ?script)
                    \<lparr>Frontend := \<lparr>received = 3, incoming = sample_frames ?script\<rparr>,
                     PID := 4242, SecretKey := 99, TxStatus := CHR ''I''\<rparr>"
    by (auto simp add: sample_frames_def sample_opened_def)
  then show ?thesis by auto
qed

lemma iteration_ErrorResponse:
  assumes "Receive (Frontend c) = (fe, Some (pgproto3_ErrorResponse m), None)"
  shows "Connect_iteration env c =
     Inl (Returns (Some (NetConn c)) None
            (Some (PgErr
               \<lparr>Severity = ErrorResponse.Severity m,
                Code = ErrorResponse.Code m,
                Message = ErrorResponse.Message m,
                Detail = ErrorResponse.Detail m,
                Hint = ErrorResponse.Hint m,
                Position = ErrorResponse.Position m,
                InternalPosition = ErrorResponse.InternalPosition m,
                InternalQuery = ErrorResponse.InternalQuery m,
                Where = ErrorResponse.Where m,
                SchemaName = ErrorResponse.SchemaName m,
                TableName = ErrorResponse.TableName m,
                ColumnName = ErrorResponse.ColumnName m,
                DataTypeName = ErrorResponse.DataTypeName m,
                ConstraintName = ErrorResponse.ConstraintName m,
                File = ErrorResponse.File m,
                Line = ErrorResponse.Line m,
                Routine = ErrorResponse.Routine m\<rparr>)))"
  using assms by (simp add: Connect_iteration_def ReceiveMessage_def)

lemma sample_one_turn:
  "turns (Suc 0) (sample_Env ((Some (pgproto3_Authentication AuthTypeOk salt), None) # script))
      (sample_opened ((Some (pgproto3_Authentication AuthTypeOk salt), None) # script)) =
   Inr ((sample_opened ((Some (pgproto3_Authentication AuthTypeOk salt), None) # script))
          \<lparr>Frontend := \<lparr>received = Suc 0,
                        incoming = sample_frames ((Some (pgproto3_Authentication AuthTypeOk salt), None) # script)\<rparr>\<rparr>)"
  by (simp add: iteration_Authentication sample_frames_def rxAuthenticationX_def sample_opened_def)

text \<open>
  C9. When, after any number of turns of the receive loop, the codec hands over an
  error-response frame, \<open>Connect\<close> returns no handle and a \<open>PgError\<close> each of whose seventeen
  fields is the field of the same name of the frame.
\<close>

theorem Connect_error_response:
  assumes "Connect_open env cc = Inr pgConn0"
    and "turns n env pgConn0 = Inr pgConn"
    and "Receive (Frontend pgConn) = (fe, Some (pgproto3_ErrorResponse m), None)"
  shows "\<exists>stream pe. Connect env cc = Some (Returns stream None (Some (PgErr pe)))
     \<and> PgError.Severity pe = ErrorResponse.Severity m
     \<and> PgError.Code pe = ErrorResponse.Code m
     \<and> PgError.Message pe = ErrorResponse.Message m
     \<and> PgError.Detail pe = ErrorResponse.Detail m
     \<and> PgError.Hint pe = ErrorResponse.Hint m
     \<and> PgError.Position pe = ErrorResponse.Position m
     \<and> PgError.InternalPosition pe = ErrorResponse.InternalPosition m
     \<and> PgError.InternalQuery pe = ErrorResponse.InternalQuery m
     \<and> PgError.Where pe = ErrorResponse.Where m
     \<and> PgError.SchemaName pe = ErrorResponse.SchemaName m
     \<and> PgError.TableName pe = ErrorResponse.TableName m
     \<and> PgError.ColumnName pe = ErrorResponse.ColumnName m
     \<and> PgError.DataTypeName pe = ErrorResponse.DataTypeName m
     \<and> PgError.ConstraintName pe = ErrorResponse.ConstraintName m
     \<and> PgError.File pe = ErrorResponse.File m
     \<and> PgError.Line pe = ErrorResponse.Line m
     \<and> PgError.Routine pe = ErrorResponse.Routine m"
proof -
  let ?pe = "\<lparr>Severity = ErrorResponse.Severity m,
                Code = ErrorResponse.Code m,
                Message = ErrorResponse.Message m,
                Detail = ErrorResponse.Detail m,
                Hint = ErrorResponse.Hint m,
                Position = ErrorResponse.Position m,
                InternalPosition = ErrorResponse.InternalPosition m,
                InternalQuery = ErrorResponse.InternalQuery m,
                Where = ErrorResponse.Where m,
                SchemaName = ErrorResponse.SchemaName m,
                TableName = ErrorResponse.TableName m,
                ColumnName = ErrorResponse.ColumnName m,
                DataTypeName = ErrorResponse.DataTypeName m,
                ConstraintName = ErrorResponse.ConstraintName m,
                File = ErrorResponse.File m,
                Line = ErrorResponse.Line m,
                Routine = ErrorResponse.Routine m\<rparr>"
  have "Connect env cc = Some (Returns (Some (NetConn pgConn)) None (Some (PgErr ?pe)))"
    by (rule Connect_in_loop [OF assms(1,2) iteration_ErrorResponse [OF assms(3)]])
  moreover have "PgError.Severity ?pe = ErrorResponse.Severity m
     \<and> PgError.Code ?pe = ErrorResponse.Code m
     \<and> PgError.Message ?pe = ErrorResponse.Message m
     \<and> PgError.Detail ?pe = ErrorResponse.Detail m
     \<and> PgError.Hint ?pe = ErrorResponse.Hint m
     \<and> PgError.Position ?pe = ErrorResponse.Position m
     \<and> PgError.InternalPosition ?pe = ErrorResponse.InternalPosition m
     \<and> PgError.InternalQuery ?pe = ErrorResponse.InternalQuery m
     \<and> PgError.Where ?pe = ErrorResponse.Where m
     \<and> PgError.SchemaName ?pe = ErrorResponse.SchemaName m
     \<and> PgError.TableName ?pe = ErrorResponse.TableName m
     \<and> PgError.ColumnName ?pe = ErrorResponse.ColumnName m
     \<and> PgError.DataTypeName ?pe = ErrorResponse.DataTypeName m
     \<and> PgError.ConstraintName ?pe = ErrorResponse.ConstraintName m
     \<and> PgError.File ?pe = ErrorResponse.File m
     \<and> PgError.Line ?pe = ErrorResponse.Line m
     \<and> PgError.Routine ?pe = ErrorResponse.Routine m"
    by simp
  ultimately show ?thesis by blast
qed

theorem Connect_error_response_witness:
  "\<exists>stream pe.
      Connect (sample_Env [(Some (pgproto3_Authentication AuthTypeOk (CHR ''s'', CHR ''a'', CHR ''l'', CHR ''t'')), None),
                           (Some (pgproto3_ErrorResponse sample_ErrorResponse), None)]) sample_ConnConfig =
        Some (Returns stream None (Some (PgErr pe)))
      \<and> PgError.Severity pe = ''FATAL'' \<and> PgError.Code pe = ''28P01''
      \<and> PgError.File pe = ''auth.c'' \<and> PgError.Line pe = 302"
proof -
  let ?script = "[(Some (pgproto3_Authentication AuthTypeOk (CHR ''s'', CHR ''a'', CHR ''l'', CHR ''t'')), None),
                  (Some (pgproto3_ErrorResponse sample_ErrorResponse), None)]"
  note t = Connect_error_response [OF sample_open [of ?script] sample_one_turn]
  obtain stream pe where "Connect (sample_Env ?script) sample_ConnConfig = Some (Returns stream None (Some (PgErr pe)))"
    and "PgError.Severity pe = ErrorResponse.Severity sample_ErrorResponse"
    and "PgError.Code pe = ErrorResponse.Code sample_ErrorResponse"
    and "PgError.File pe = ErrorResponse.File sample_ErrorResponse"
    and "PgError.Line pe = ErrorResponse.Line sample_ErrorResponse"
    using t [where m = sample_ErrorResponse
               and fe = "\<lparr>received = Suc (Suc 0), incoming = sample_frames ?script\<rparr>"]
    by (auto simp add: Receive_def sample_frames_def)
  then have "Connect (sample_Env ?script) sample_ConnConfig = Some (Returns stream None (Some (PgErr pe)))
      \<and> PgError.Severity pe = ''FATAL'' \<and> PgError.Code pe = ''28P01''
      \<and> PgError.File pe = ''auth.c'' \<and> PgError.Line pe = 302"
    by (simp add: sample_ErrorResponse_def)
  then show ?thesis by blast
qed

lemma Connect_open_Inl: "Connect_open env cc = Inl r \<Longrightarrow> Connect env cc = Some r"
  by (simp add: Connect_def)

lemma iteration_receive_error:
  "ReceiveMessage pgConn = (pgConn1, msg, Some err) \<Longrightarrow>
     Connect_iteration env pgConn = Inl (Returns (Some (NetConn pgConn1)) None (Some err))"
  by (simp add: Connect_iteration_def)

lemma iteration_auth_error:
  "ReceiveMessage pgConn = (pgConn1, Some (pgproto3_Authentication msg_Type msg_Salt), None) \<Longrightarrow>
   rxAuthenticationX env pgConn1 msg_Type msg_Salt = (pgConn2, Some err) \<Longrightarrow>
     Connect_iteration env pgConn = Inl (Returns (Some (NetConn pgConn2)) None (Some err))"
  by (simp add: Connect_iteration_def)

lemma iteration_server_error:
  "ReceiveMessage pgConn = (pgConn1, Some (pgproto3_ErrorResponse m), None) \<Longrightarrow>
     \<exists>pe. Connect_iteration env pgConn = Inl (Returns (Some (NetConn pgConn1)) None (Some (PgErr pe)))"
  by (simp add: Connect_iteration_def)

lemma iteration_unexpected:
  "ReceiveMessage pgConn = (pgConn1, Some (pgproto3_Other tag), None)
     \<or> ReceiveMessage pgConn = (pgConn1, None, None) \<Longrightarrow>
     Connect_iteration env pgConn =
       Inl (Returns (Some (NetConn pgConn1)) None (Some (errors_New ''unexpected message'')))"
  by (auto simp add: Connect_iteration_def)

text \<open>
  C2. Whenever \<open>Connect\<close> returns, it returns either no handle and an error, or a handle and no
  error, and the latter only when the last frame the handle's codec received is a
  ready-for-query frame (whose status is the handle's transaction status); it never panics.
  Every failure makes it return no handle together with the error: a failure of the
  defaulting, of the dial (the dial function is present after the defaulting), of the TLS
  negotiation, of the construction of the codec, of the write of the startup frame, and,
  after any number of turns of the receive loop, a failed receive, a failed authentication,
  an error response of the server, and a frame of any other kind (or no frame at all).
\<close>

theorem Connect_failure_gives_no_handle:
  "(Connect env cc = Some r \<longrightarrow>
      (\<exists>stream err. r = Returns stream None (Some err))
    \<or> (\<exists>pgConn k txStatus.
          r = Returns (Some (NetConn pgConn)) (Some pgConn) None
          \<and> received (Frontend pgConn) = Suc k
          \<and> incoming (Frontend pgConn) k = (Some (pgproto3_ReadyForQuery txStatus), None)
          \<and> TxStatus pgConn = txStatus))
   \<and> (assignDefaults env cc = (cc0, Some err) \<longrightarrow>
        Connect env cc = Some (Returns None None (Some err)))
   \<and> (assignDefaults env cc = (cc1, None) \<longrightarrow>
        (\<exists>dial. Dial cc1 = Some dial)
      \<and> (Dial cc1 = Some dial
           \<and> dial (fst (NetworkAddress env cc1)) (snd (NetworkAddress env cc1)) = Inl e \<longrightarrow>
          Connect env cc = Some (Returns None None (Some (External e))))
      \<and> (Dial cc1 = Some dial
           \<and> dial (fst (NetworkAddress env cc1)) (snd (NetworkAddress env cc1)) = Inr conn \<longrightarrow>
          (TLSConfig cc1 = Some tlsConfig \<and> startTLS conn tlsConfig = (conn1, Some err) \<longrightarrow>
             Connect env cc = Some (Returns (Some conn1) None (Some err)))
        \<and> ((case TLSConfig cc1 of None \<Rightarrow> (conn, None) | Some t \<Rightarrow> startTLS conn t) = (conn1, None) \<longrightarrow>
             (pgproto3_NewFrontend env conn1 = Inl e \<longrightarrow>
                Connect env cc = Some (Returns (Some conn1) None (Some (External e))))
           \<and> (pgproto3_NewFrontend env conn1 = Inr fe
                \<and> Write conn1 (Encoded (startupMsg cc1)) = (conn2, Some e) \<longrightarrow>
                Connect env cc = Some (Returns (Some conn2) None (Some (External e)))))))
   \<and> (Connect_open env cc = Inr pgConn0 \<and> turns n env pgConn0 = Inr pgConn \<longrightarrow>
        (ReceiveMessage pgConn = (pgConn1, msg, Some err) \<longrightarrow>
           Connect env cc = Some (Returns (Some (NetConn pgConn1)) None (Some err)))
      \<and> (ReceiveMessage pgConn = (pgConn1, Some (pgproto3_Authentication msg_Type msg_Salt), None)
           \<and> rxAuthenticationX env pgConn1 msg_Type msg_Salt = (pgConn2, Some err) \<longrightarrow>
           Connect env cc = Some (Returns (Some (NetConn pgConn2)) None (Some err)))
      \<and> (ReceiveMessage pgConn = (pgConn1, Some (pgproto3_ErrorResponse m), None) \<longrightarrow>
           (\<exists>pe. Connect env cc = Some (Returns (Some (NetConn pgConn1)) None (Some (PgErr pe)))))
      \<and> (ReceiveMessage pgConn = (pgConn1, Some (pgproto3_Other tag), None)
           \<or> ReceiveMessage pgConn = (pgConn1, None, None) \<longrightarrow>
           Connect env cc =
             Some (Returns (Some (NetConn pgConn1)) None (Some (errors_New ''unexpected message'')))))"
proof (intro conjI impI)
  assume "Connect env cc = Some r"
  then show "(\<exists>stream err. r = Returns stream None (Some err))
    \<or> (\<exists>pgConn k txStatus.
          r = Returns (Some (NetConn pgConn)) (Some pgConn) None
          \<and> received (Frontend pgConn) = Suc k
          \<and> incoming (Frontend pgConn) k = (Some (pgproto3_ReadyForQuery txStatus), None)
          \<and> TxStatus pgConn = txStatus)"
    by (rule Connect_results)
next
  assume "assignDefaults env cc = (cc0, Some err)"
  then show "Connect env cc = Some (Returns None None (Some err))"
    by (simp add: Connect_def Connect_open_def)
next
  assume "assignDefaults env cc = (cc1, None)"
  then show "\<exists>dial. Dial cc1 = Some dial"
    using assignDefaults_Dial [of env cc cc1] by auto
next
  assume "assignDefaults env cc = (cc1, None)"
    and "Dial cc1 = Some dial \<and> dial (fst (NetworkAddress env cc1)) (snd (NetworkAddress env cc1)) = Inl e"
  then show "Connect env cc = Some (Returns None None (Some (External e)))"
    by (simp add: Connect_def Connect_open_def)
next
  assume "assignDefaults env cc = (cc1, None)"
    and "Dial cc1 = Some dial \<and> dial (fst (NetworkAddress env cc1)) (snd (NetworkAddress env cc1)) = Inr conn"
    and "TLSConfig cc1 = Some tlsConfig \<and> startTLS conn tlsConfig = (conn1, Some err)"
  then show "Connect env cc = Some (Returns (Some conn1) None (Some err))"
    by (simp add: Connect_def Connect_open_def)
next
  assume "assignDefaults env cc = (cc1, None)"
    and "Dial cc1 = Some dial \<and> dial (fst (NetworkAddress env cc1)) (snd (NetworkAddress env cc1)) = Inr conn"
    and "(case TLSConfig cc1 of None \<Rightarrow> (conn, None) | Some t \<Rightarrow> startTLS conn t) = (conn1, None)"
    and "pgproto3_NewFrontend env conn1 = Inl e"
  then show "Connect env cc = Some (Returns (Some conn1) None (Some (External e)))"
    by (simp add: Connect_def Connect_open_def)
next
  assume "assignDefaults env cc = (cc1, None)"
    and "Dial cc1 = Some dial \<and> dial (fst (NetworkAddress env cc1)) (snd (NetworkAddress env cc1)) = Inr conn"
    and "(case TLSConfig cc1 of None \<Rightarrow> (conn, None) | Some t \<Rightarrow> startTLS conn t) = (conn1, None)"
    and "pgproto3_NewFrontend env conn1 = Inr fe \<and> Write conn1 (Encoded (startupMsg cc1)) = (conn2, Some e)"
  then show "Connect env cc = Some (Returns (Some conn2) None (Some (External e)))"
    by (simp add: Connect_def Connect_open_def)
next
  assume "Connect_open env cc = Inr pgConn0 \<and> turns n env pgConn0 = Inr pgConn"
    and "ReceiveMessage pgConn = (pgConn1, msg, Some err)"
  then show "Connect env cc = Some (Returns (Some (NetConn pgConn1)) None (Some err))"
    using Connect_in_loop [of env cc pgConn0 n pgConn] iteration_receive_error [of pgConn pgConn1 msg err env]
    by simp
next
  assume "Connect_open env cc = Inr pgConn0 \<and> turns n env pgConn0 = Inr pgConn"
    and "ReceiveMessage pgConn = (pgConn1, Some (pgproto3_Authentication msg_Type msg_Salt), None)
           \<and> rxAuthenticationX env pgConn1 msg_Type msg_Salt = (pgConn2, Some err)"
  then show "Connect env cc = Some (Returns (Some (NetConn pgConn2)) None (Some err))"
    using Connect_in_loop [of env cc pgConn0 n pgConn]
      iteration_auth_error [of pgConn pgConn1 msg_Type msg_Salt env pgConn2 err]
    by simp
next
  assume "Connect_open env cc = Inr pgConn0 \<and> turns n env pgConn0 = Inr pgConn"
    and "ReceiveMessage pgConn = (pgConn1, Some (pgproto3_ErrorResponse m), None)"
  then show "\<exists>pe. Connect env cc = Some (Returns (Some (NetConn pgConn1)) None (Some (PgErr pe)))"
    using Connect_in_loop [of env cc pgConn0 n pgConn]
      iteration_server_error [of pgConn pgConn1 m env]
    by auto
next
  assume "Connect_open env cc = Inr pgConn0 \<and> turns n env pgConn0 = Inr pgConn"
    and "ReceiveMessage pgConn = (pgConn1, Some (pgproto3_Other tag), None)
           \<or> ReceiveMessage pgConn = (pgConn1, None, None)"
  then show "Connect env cc =
             Some (Returns (Some (NetConn pgConn1)) None (Some (errors_New ''unexpected message'')))"
    using Connect_in_loop [of env cc pgConn0 n pgConn]
      iteration_unexpected [of pgConn pgConn1 tag env]
    by simp
qed


theorem Connect_failure_gives_no_handle_witness:
  "(\<exists>stream. Connect (sample_Env []) sample_ConnConfig =
        Some (Returns (Some stream) None (Some (External (ExtError ''EOF'')))))
   \<and> Connect ((sample_Env [])\<lparr>user_Current := Inl (ExtError ''unknown userid'')\<rparr>) sample_ConnConfig =
        Some (Returns None None (Some (External (ExtError ''unknown userid''))))
   \<and> (\<exists>stream. Connect (sample_Env [])
                  (sample_ConnConfig\<lparr>TLSConfig := Some (tls_Config 1),
                                     Dial := Some (\<lambda>network address. Inr (sample_stream CHR ''N''))\<rparr>) =
        Some (Returns (Some stream) None (Some ErrTLSRefused)))
   \<and> (\<exists>stream. Connect (sample_Env [(Some (pgproto3_Other 78), None)]) sample_ConnConfig =
        Some (Returns (Some stream) None (Some (errors_New ''unexpected message''))))"
proof -
  note receive_fails =
    Connect_failure_gives_no_handle
      [THEN conjunct2, THEN conjunct2, THEN conjunct2, THEN mp, THEN conjunct1, THEN mp]
  note unexpected =
    Connect_failure_gives_no_handle
      [THEN conjunct2, THEN conjunct2, THEN conjunct2, THEN mp,
       THEN conjunct2, THEN conjunct2, THEN conjunct2, THEN mp]
  note defaults_fail =
    Connect_failure_gives_no_handle [THEN conjunct2, THEN conjunct1, THEN mp]
  note tls_fails =
    Connect_failure_gives_no_handle
      [THEN conjunct2, THEN conjunct2, THEN conjunct1, THEN mp,
       THEN conjunct2, THEN conjunct2, THEN mp, THEN conjunct1, THEN mp]
  have 1: "Connect (sample_Env []) sample_ConnConfig =
        Some (Returns (Some (NetConn (sample_opened []))) None (Some (External (ExtError ''EOF''))))"
    using receive_fails [of "sample_Env []" sample_ConnConfig "sample_opened []" 0 "sample_opened []"
            "(sample_opened [])\<lparr>Frontend := \<lparr>received = Suc 0, incoming = sample_frames []\<rparr>\<rparr>"
            None "External (ExtError ''EOF'')"]
    by (simp add: sample_open ReceiveMessage_def Receive_def sample_frames_def sample_opened_def)
  have 2: "Connect ((sample_Env [])\<lparr>user_Current := Inl (ExtError ''unknown userid'')\<rparr>) sample_ConnConfig =
        Some (Returns None None (Some (External (ExtError ''unknown userid''))))"
    using defaults_fail [of "(sample_Env [])\<lparr>user_Current := Inl (ExtError ''unknown userid'')\<rparr>"
            sample_ConnConfig sample_ConnConfig "External (ExtError ''unknown userid'')"]
    by (simp add: assignDefaults_def sample_Env_def sample_ConnConfig_def)
  have 3: "Connect (sample_Env [])
                  (sample_ConnConfig\<lparr>TLSConfig := Some (tls_Config 1),
                                     Dial := Some (\<lambda>network address. Inr (sample_stream CHR ''N''))\<rparr>) =
        Some (Returns (Some (fst (startTLS (sample_stream CHR ''N'') (tls_Config 1)))) None (Some ErrTLSRefused))"
    using tls_fails [of "sample_Env []"
            "sample_ConnConfig\<lparr>TLSConfig := Some (tls_Config 1),
                               Dial := Some (\<lambda>network address. Inr (sample_stream CHR ''N''))\<rparr>"
            "sample_ConnConfig\<lparr>TLSConfig := Some (tls_Config 1),
                               Dial := Some (\<lambda>network address. Inr (sample_stream CHR ''N'')),
                               User := ''postgres'', Port := 5432\<rparr>"
            "\<lambda>network address. Inr (sample_stream CHR ''N'')" "sample_stream CHR ''N''" "tls_Config 1"
            "fst (startTLS (sample_stream CHR ''N'') (tls_Config 1))" ErrTLSRefused]
    by (simp add: assignDefaults_def sample_Env_def sample_ConnConfig_def Let_def
          startTLS_def Write_def ReadFull1_def sample_stream_def)
  have 4: "Connect (sample_Env [(Some (pgproto3_Other 78), None)]) sample_ConnConfig =
        Some (Returns (Some (NetConn (sample_opened [(Some (pgproto3_Other 78), None)]))) None
               (Some (errors_New ''unexpected message'')))"
    using unexpected [of "sample_Env [(Some (pgproto3_Other 78), None)]" sample_ConnConfig
            "sample_opened [(Some (pgproto3_Other 78), None)]" 0
            "sample_opened [(Some (pgproto3_Other 78), None)]"
            "(sample_opened [(Some (pgproto3_Other 78), None)])
               \<lparr>Frontend := \<lparr>received = Suc 0, incoming = sample_frames [(Some (pgproto3_Other 78), None)]\<rparr>\<rparr>"
            78]
    by (simp add: sample_open ReceiveMessage_def Receive_def sample_frames_def sample_opened_def)
  from 1 2 3 4 show ?thesis by blast
qed

section \<open>The startup frame\<close>

lemma assignDefaults_keeps:
  assumes "assignDefaults env cc = (cc1, None)"
  shows "Database cc1 = Database cc \<and> RuntimeParams cc1 = RuntimeParams cc
       \<and> Password cc1 = Password cc \<and> Host cc1 = Host cc \<and> TLSConfig cc1 = TLSConfig cc
       \<and> (User cc \<noteq> [] \<longrightarrow> User cc1 = User cc)
       \<and> (User cc = [] \<longrightarrow> user_Current env = Inr (User cc1))"
  using assms
  by (auto simp add: assignDefaults_def Let_def split: sum.splits if_splits)

lemma startupMsg_Parameters:
  "startupMsg cc =
     pgproto3_StartupMessage ProtocolVersionNumber
       (if Database cc = [] then (RuntimeParams cc)(''user'' \<mapsto> User cc)
        else (RuntimeParams cc)(''user'' \<mapsto> User cc, ''database'' \<mapsto> Database cc))"
  by (simp add: startupMsg_def)

lemma ReceiveMessage_NetConn: "NetConn (fst (ReceiveMessage c)) = NetConn c"
  by (simp add: ReceiveMessage_def split: prod.splits option.splits BackendMessage.splits)

lemma rxAuthenticationX_writes:
  "rxAuthenticationX env c msg_Type msg_Salt = (c', e) \<Longrightarrow>
     prefix (writes (NetConn c)) (writes (NetConn c'))"
  by (auto simp add: rxAuthenticationX_def txPasswordMessage_def Write_def Let_def
        split: prod.splits if_splits)

lemma iteration_writes_Inr:
  assumes "Connect_iteration env c = Inr c'"
  shows "prefix (writes (NetConn c)) (writes (NetConn c'))"
proof -
  obtain c1 msg err where r: "ReceiveMessage c = (c1, msg, err)"
    by (cases "ReceiveMessage c") auto
  with ReceiveMessage_NetConn [of c] have n: "NetConn c1 = NetConn c" by simp
  from assms r n show ?thesis
    by (auto simp add: Connect_iteration_def dest: rxAuthenticationX_writes
          split: option.splits BackendMessage.splits prod.splits)
qed

lemma iteration_writes_Inl:
  assumes "Connect_iteration env c = Inl r"
  shows "\<exists>stream h e. r = Returns (Some stream) h e \<and> prefix (writes (NetConn c)) (writes stream)"
proof -
  obtain c1 msg err where r: "ReceiveMessage c = (c1, msg, err)"
    by (cases "ReceiveMessage c") auto
  with ReceiveMessage_NetConn [of c] have n: "NetConn c1 = NetConn c" by simp
  from assms r n show ?thesis
    by (auto simp add: Connect_iteration_def dest: rxAuthenticationX_writes
          split: option.splits BackendMessage.splits prod.splits)
qed

lemma turns_writes:
  "turns n env c0 = Inr c \<Longrightarrow> prefix (writes (NetConn c0)) (writes (NetConn c))"
proof (induction n arbitrary: c0)
  case 0
  then show ?case by simp
next
  case (Suc n)
  then obtain c1 where step: "Connect_iteration env c0 = Inr c1" and rest: "turns n env c1 = Inr c"
    by (cases "Connect_iteration env c0") auto
  from iteration_writes_Inr [OF step] Suc.IH [OF rest] show ?case
    by (rule prefix_order.trans)
qed

lemma loop_writes:
  assumes "Connect_loop env c0 = Some r"
  shows "\<exists>stream h e. r = Returns (Some stream) h e \<and> prefix (writes (NetConn c0)) (writes stream)"
proof -
  from loop_return_turns [OF assms] obtain n c where t: "turns n env c0 = Inr c"
    and i: "Connect_iteration env c = Inl r" by blast
  from iteration_writes_Inl [OF i] obtain stream h e where r: "r = Returns (Some stream) h e"
    and p: "prefix (writes (NetConn c)) (writes stream)" by blast
  from turns_writes [OF t] p have "prefix (writes (NetConn c0)) (writes stream)"
    by (rule prefix_order.trans)
  with r show ?thesis by blast
qed

text \<open>
  C4. For every configuration with which \<open>Connect\<close> gets as far as the startup frame
  (defaults assigned, stream dialled, TLS negotiated if asked for, codec built), the frame
  handed to the stream right then is a startup frame with the protocol version constant
  whose parameter map is the configured run-time parameters, overridden by \<open>user\<close> = the user
  of the configuration (as configured; the operating-system user when none was configured,
  which is what the defaulting stores in the configuration), and overridden by \<open>database\<close> =
  the configured database exactly when that is not empty: with an empty database a run-time
  parameter named \<open>database\<close> stays as it is. Every other name keeps its run-time value. The
  frame is in the stream's write log when the setup ends, and it is still there, at the same
  place, whenever \<open>Connect\<close> returns.
\<close>

theorem Connect_startup_frame:
  assumes "assignDefaults env cc = (cc1, None)"
    and "Dial cc1 = Some dial"
    and "dial (fst (NetworkAddress env cc1)) (snd (NetworkAddress env cc1)) = Inr conn"
    and "(case TLSConfig cc1 of None \<Rightarrow> (conn, None) | Some t \<Rightarrow> startTLS conn t) = (conn1, None)"
    and "pgproto3_NewFrontend env conn1 = Inr fe"
  shows "\<exists>Parameters conn2.
           conn2 = conn1\<lparr>writes := writes conn1 @
                      [Encoded (pgproto3_StartupMessage ProtocolVersionNumber Parameters)]\<rparr>
         \<and> ((\<exists>e. Connect_open env cc = Inl (Returns (Some conn2) None (Some (External e))))
            \<or> (\<exists>pgConn. Connect_open env cc = Inr pgConn \<and> NetConn pgConn = conn2 \<and> Config pgConn = cc1))
         \<and> (\<forall>stream h e. Connect env cc = Some (Returns stream h e) \<longrightarrow>
               (\<exists>s. stream = Some s \<and> prefix (writes conn2) (writes s)))
         \<and> Parameters =
             (if Database cc = [] then (RuntimeParams cc)(''user'' \<mapsto> User cc1)
              else (RuntimeParams cc)(''user'' \<mapsto> User cc1, ''database'' \<mapsto> Database cc))
         \<and> Parameters ''user'' = Some (User cc1)
         \<and> (User cc \<noteq> [] \<longrightarrow> User cc1 = User cc)
         \<and> (User cc = [] \<longrightarrow> user_Current env = Inr (User cc1))
         \<and> (Database cc \<noteq> [] \<longrightarrow> Parameters ''database'' = Some (Database cc))
         \<and> (Database cc = [] \<longrightarrow> Parameters ''database'' = RuntimeParams cc ''database'')
         \<and> (\<forall>key. key \<noteq> ''user'' \<and> key \<noteq> ''database'' \<longrightarrow> Parameters key = RuntimeParams cc key)"
proof -
  let ?P = "if Database cc = [] then (RuntimeParams cc)(''user'' \<mapsto> User cc1)
            else (RuntimeParams cc)(''user'' \<mapsto> User cc1, ''database'' \<mapsto> Database cc)"
  let ?conn2 = "conn1\<lparr>writes := writes conn1 @ [Encoded (pgproto3_StartupMessage ProtocolVersionNumber ?P)]\<rparr>"
  note k = assignDefaults_keeps [OF assms(1)]
  have m: "startupMsg cc1 = pgproto3_StartupMessage ProtocolVersionNumber ?P"
    using k by (simp add: startupMsg_Parameters)
  have w: "Write conn1 (Encoded (startupMsg cc1)) = (?conn2, write_result conn1 (length (writes conn1)))"
    by (simp add: Write_def m)
  have o: "(\<exists>e. Connect_open env cc = Inl (Returns (Some ?conn2) None (Some (External e))))
            \<or> (\<exists>pgConn. Connect_open env cc = Inr pgConn \<and> NetConn pgConn = ?conn2 \<and> Config pgConn = cc1)"
    using assms w by (cases "write_result conn1 (length (writes conn1))") (simp_all add: Connect_open_def)
  have c: "\<forall>stream h e. Connect env cc = Some (Returns stream h e) \<longrightarrow>
               (\<exists>s. stream = Some s \<and> prefix (writes ?conn2) (writes s))"
  proof (intro allI impI)
    fix stream h e
    assume ret: "Connect env cc = Some (Returns stream h e)"
    from o show "\<exists>s. stream = Some s \<and> prefix (writes ?conn2) (writes s)"
    proof
      assume "\<exists>e. Connect_open env cc = Inl (Returns (Some ?conn2) None (Some (External e)))"
      then obtain e' where "Connect_open env cc = Inl (Returns (Some ?conn2) None (Some (External e')))"
        by blast
      with ret have "stream = Some ?conn2" by (simp add: Connect_def)
      then show ?thesis by simp
    next
      assume "\<exists>pgConn. Connect_open env cc = Inr pgConn \<and> NetConn pgConn = ?conn2 \<and> Config pgConn = cc1"
      then obtain pgConn where op: "Connect_open env cc = Inr pgConn" and nc: "NetConn pgConn = ?conn2"
        by blast
      with ret have "Connect_loop env pgConn = Some (Returns stream h e)" by (simp add: Connect_def)
      from loop_writes [OF this] nc show ?thesis by auto
    qed
  qed
  have p1: "?P ''user'' = Some (User cc1)" by simp
  have p2: "Database cc \<noteq> [] \<longrightarrow> ?P ''database'' = Some (Database cc)" by simp
  have p3: "Database cc = [] \<longrightarrow> ?P ''database'' = RuntimeParams cc ''database''" by simp
  have p4: "\<forall>key. key \<noteq> ''user'' \<and> key \<noteq> ''database'' \<longrightarrow> ?P key = RuntimeParams cc key" by simp
  have "?conn2 = conn1\<lparr>writes := writes conn1 @
                      [Encoded (pgproto3_StartupMessage ProtocolVersionNumber ?P)]\<rparr>
         \<and> ((\<exists>e. Connect_open env cc = Inl (Returns (Some ?conn2) None (Some (External e))))
            \<or> (\<exists>pgConn. Connect_open env cc = Inr pgConn \<and> NetConn pgConn = ?conn2 \<and> Config pgConn = cc1))
         \<and> (\<forall>stream h e. Connect env cc = Some (Returns stream h e) \<longrightarrow>
               (\<exists>s. stream = Some s \<and> prefix (writes ?conn2) (writes s)))
         \<and> ?P = ?P
         \<and> ?P ''user'' = Some (User cc1)
         \<and> (User cc \<noteq> [] \<longrightarrow> User cc1 = User cc)
         \<and> (User cc = [] \<longrightarrow> user_Current env = Inr (User cc1))
         \<and> (Database cc \<noteq> [] \<longrightarrow> ?P ''database'' = Some (Database cc))
         \<and> (Database cc = [] \<longrightarrow> ?P ''database'' = RuntimeParams cc ''database'')
         \<and> (\<forall>key. key \<noteq> ''user'' \<and> key \<noteq> ''database'' \<longrightarrow> ?P key = RuntimeParams cc key)"
    using k by (intro conjI refl o c p1 p2 p3 p4) simp_all
  then show ?thesis by (intro exI)
qed


theorem Connect_startup_frame_witness:
  "(\<exists>pgConn Parameters.
      Connect_open (sample_Env []) sample_ConnConfig = Inr pgConn
    \<and> writes (NetConn pgConn) = [Encoded (pgproto3_StartupMessage ProtocolVersionNumber Parameters)]
    \<and> Parameters ''user'' = Some ''postgres''
    \<and> Parameters ''database'' = Some ''app''
    \<and> Parameters ''application_name'' = Some ''demo''
    \<and> Parameters ''search_path'' = None)
   \<and> (\<exists>pgConn Parameters.
      Connect_open (sample_Env [])
        (sample_ConnConfig\<lparr>Database := [], User := ''alice'',
                           RuntimeParams := [''database'' \<mapsto> ''fallback'', ''user'' \<mapsto> ''nobody'']\<rparr>) = Inr pgConn
    \<and> writes (NetConn pgConn) = [Encoded (pgproto3_StartupMessage ProtocolVersionNumber Parameters)]
    \<and> Parameters ''user'' = Some ''alice''
    \<and> Parameters ''database'' = Some ''fallback'')"
proof -
  have first: "\<exists>pgConn Parameters.
      Connect_open (sample_Env []) cc = Inr pgConn
    \<and> writes (NetConn pgConn) = [Encoded (pgproto3_StartupMessage ProtocolVersionNumber Parameters)]
    \<and> Parameters =
         (if Database cc = [] then (RuntimeParams cc)(''user'' \<mapsto> User cc1)
          else (RuntimeParams cc)(''user'' \<mapsto> User cc1, ''database'' \<mapsto> Database cc))"
    if cc: "cc = sample_ConnConfig\<lparr>Database := db, User := u, RuntimeParams := rp\<rparr>"
      and cc1: "cc1 = cc\<lparr>User := (if u = [] then ''postgres'' else u), Port := 5432,
                  Dial := Some (net_Dialer_Dial (sample_Env []) (5 * time_Minute))\<rparr>"
    for cc cc1 db u rp
  proof -
    have 1: "assignDefaults (sample_Env []) cc = (cc1, None)"
      by (simp add: cc cc1 assignDefaults_def sample_Env_def sample_ConnConfig_def Let_def)
    have 2: "Dial cc1 = Some (net_Dialer_Dial (sample_Env []) (5 * time_Minute))"
      by (simp add: cc1)
    have 3: "net_Dialer_Dial (sample_Env []) (5 * time_Minute)
               (fst (NetworkAddress (sample_Env []) cc1)) (snd (NetworkAddress (sample_Env []) cc1)) =
             Inr (sample_stream CHR ''S'')"
      by (simp add: sample_Env_def)
    have 4: "(case TLSConfig cc1 of None \<Rightarrow> (sample_stream CHR ''S'', None)
              | Some t \<Rightarrow> startTLS (sample_stream CHR ''S'') t) = (sample_stream CHR ''S'', None)"
      by (simp add: cc cc1 sample_ConnConfig_def)
    have 5: "pgproto3_NewFrontend (sample_Env []) (sample_stream CHR ''S'') =
               Inr \<lparr>received = 0, incoming = sample_frames []\<rparr>"
      by (simp add: sample_Env_def)
    from Connect_startup_frame [OF 1 2 3 4 5]
    obtain Parameters conn2 where
      a: "conn2 = (sample_stream CHR ''S'')\<lparr>writes := writes (sample_stream CHR ''S'') @
                        [Encoded (pgproto3_StartupMessage ProtocolVersionNumber Parameters)]\<rparr>"
      and b: "(\<exists>e. Connect_open (sample_Env []) cc = Inl (Returns (Some conn2) None (Some (External e))))
              \<or> (\<exists>pgConn. Connect_open (sample_Env []) cc = Inr pgConn \<and> NetConn pgConn = conn2
                    \<and> Config pgConn = cc1)"
      and d: "Parameters =
               (if Database cc = [] then (RuntimeParams cc)(''user'' \<mapsto> User cc1)
                else (RuntimeParams cc)(''user'' \<mapsto> User cc1, ''database'' \<mapsto> Database cc))"
      by (elim exE conjE)
    have 6: "snd (Write (sample_stream CHR ''S'') p) = None" for p
      by (simp add: Write_def sample_stream_def)
    have "\<exists>pgConn. Connect_open (sample_Env []) cc = Inr pgConn"
      using 6 [of "Encoded (startupMsg cc1)"]
      by (cases "Write (sample_stream CHR ''S'') (Encoded (startupMsg cc1))")
         (simp add: Connect_open_def 1 2 3 4 5)
    with b obtain pgConn where "Connect_open (sample_Env []) cc = Inr pgConn" and "NetConn pgConn = conn2"
      by auto
    with a d show ?thesis
      by (auto simp add: sample_stream_def)
  qed
  from first [where cc = sample_ConnConfig and db = "''app''" and u = "[]"
                and rp = "[''application_name'' \<mapsto> ''demo'']", OF _ refl]
  have A: "\<exists>pgConn Parameters.
      Connect_open (sample_Env []) sample_ConnConfig = Inr pgConn
    \<and> writes (NetConn pgConn) = [Encoded (pgproto3_StartupMessage ProtocolVersionNumber Parameters)]
    \<and> Parameters ''user'' = Some ''postgres''
    \<and> Parameters ''database'' = Some ''app''
    \<and> Parameters ''application_name'' = Some ''demo''
    \<and> Parameters ''search_path'' = None"
    by (auto simp add: sample_ConnConfig_def)
  from first [where cc = "sample_ConnConfig\<lparr>Database := [], User := ''alice'',
                           RuntimeParams := [''database'' \<mapsto> ''fallback'', ''user'' \<mapsto> ''nobody'']\<rparr>"
                and db = "[]" and u = "''alice''"
                and rp = "[''database'' \<mapsto> ''fallback'', ''user'' \<mapsto> ''nobody'']", OF _ refl]
  have B: "\<exists>pgConn Parameters.
      Connect_open (sample_Env [])
        (sample_ConnConfig\<lparr>Database := [], User := ''alice'',
                           RuntimeParams := [''database'' \<mapsto> ''fallback'', ''user'' \<mapsto> ''nobody'']\<rparr>) = Inr pgConn
    \<and> writes (NetConn pgConn) = [Encoded (pgproto3_StartupMessage ProtocolVersionNumber Parameters)]
    \<and> Parameters ''user'' = Some ''alice''
    \<and> Parameters ''database'' = Some ''fallback''"
    by (auto simp add: sample_ConnConfig_def)
  from A B show ?thesis by (rule conjI)
qed

section \<open>The network address\<close>

lemma split_sep_nonempty: "split_sep s \<noteq> []"
  by (induction s) (auto split: list.splits)

lemma split_sep_append:
  "split_sep (a @ CHR ''/'' # b) = split_sep a @ split_sep b"
proof (induction a)
  case Nil
  show ?case by simp
next
  case (Cons c a)
  obtain e es where s: "split_sep a = e # es"
    using split_sep_nonempty [of a] by (cases "split_sep a") auto
  with Cons show ?case by simp
qed

lemma strings_Join_Cons:
  "es \<noteq> [] \<Longrightarrow> strings_Join (e # es) sep = e @ sep @ strings_Join es sep"
  by (cases es) simp_all

lemma strings_Join_split_sep: "strings_Join (split_sep s) ''/'' = s"
proof (induction s)
  case Nil
  show ?case by simp
next
  case (Cons c s)
  obtain e es where s: "split_sep s = e # es"
    using split_sep_nonempty [of s] by (cases "split_sep s") auto
  show ?case
  proof (cases "c = CHR ''/''")
    case True
    with Cons show ?thesis
      by (simp add: strings_Join_Cons split_sep_nonempty)
  next
    case False
    with Cons s show ?thesis
      by (cases es) simp_all
  qed
qed

lemma strings_Join_snoc:
  "es \<noteq> [] \<Longrightarrow> strings_Join (es @ [m]) sep = strings_Join es sep @ sep @ m"
proof (induction es)
  case Nil
  then show ?case by simp
next
  case (Cons e es)
  then show ?case
    by (cases es) simp_all
qed

lemma clean_elems_plain:
  "list_all plain_elem es \<Longrightarrow> clean_elems rooted out es = out @ es"
  by (induction es arbitrary: out) (simp_all add: plain_elem_def)

lemma filepath_Clean_plain:
  assumes "plain_path h" and "plain_elem m" and "CHR ''/'' \<notin> set m"
  shows "filepath_Clean (h @ ''/'' @ m) = h @ ''/'' @ m"
proof -
  have m: "split_sep m = [m]"
    using assms(3) by (induction m) (auto split: list.splits)
  from assms(1) have ne: "h \<noteq> []" by (simp add: plain_path_def)
  then obtain c h' where h: "h = c # h'" by (cases h) auto
  show ?thesis
  proof (cases "c = CHR ''/''")
    case True
    with assms(1) h have pl: "list_all plain_elem (split_sep h')"
      by (simp add: plain_path_def)
    have sp: "split_sep (h @ ''/'' @ m) = [] # split_sep h' @ [m]"
      using h True by (simp add: split_sep_append m)
    have "clean_elems True [] ([] # split_sep h' @ [m]) = split_sep h' @ [m]"
      using clean_elems_plain [of "split_sep h' @ [m]" True "[]"] pl assms(2) by simp
    moreover have "strings_Join (split_sep h' @ [m]) ''/'' = h' @ ''/'' @ m"
      by (simp add: strings_Join_snoc split_sep_nonempty strings_Join_split_sep)
    ultimately show ?thesis
      using h True sp by (simp add: filepath_Clean_def)
  next
    case False
    with assms(1) h have pl: "list_all plain_elem (split_sep h)"
      by (simp add: plain_path_def)
    have sp: "split_sep (h @ ''/'' @ m) = split_sep h @ [m]"
      by (simp add: split_sep_append m)
    have "clean_elems False [] (split_sep h @ [m]) = split_sep h @ [m]"
      using clean_elems_plain [of "split_sep h @ [m]" False "[]"] pl assms(2) by simp
    moreover have "strings_Join (split_sep h @ [m]) ''/'' = h @ ''/'' @ m"
      by (simp add: strings_Join_snoc split_sep_nonempty strings_Join_split_sep)
    ultimately show ?thesis
      using h False sp split_sep_nonempty [of h] by (simp add: filepath_Clean_def)
  qed
qed

lemma filepath_Join_plain:
  assumes "plain_path h"
  shows "filepath_Join [h, ''.s.PGSQL.''] = h @ ''/.s.PGSQL.''"
proof -
  from assms have "h \<noteq> []" by (simp add: plain_path_def)
  then have "filepath_Join [h, ''.s.PGSQL.''] = filepath_Clean (h @ ''/'' @ ''.s.PGSQL.'')"
    by (simp add: filepath_Join_def)
  also have "\<dots> = h @ ''/'' @ ''.s.PGSQL.''"
    by (rule filepath_Clean_plain [OF assms]) (simp_all add: plain_elem_def)
  finally show ?thesis by simp
qed

lemma strings_Contains_iff: "strings_Contains s substr \<longleftrightarrow> (\<exists>a b. s = a @ substr @ b)"
proof (induction s)
  case Nil
  show ?case by auto
next
  case (Cons c s)
  show ?case
  proof
    assume "strings_Contains (c # s) substr"
    then consider "prefix substr (c # s)" | "strings_Contains s substr" by auto
    then show "\<exists>a b. c # s = a @ substr @ b"
    proof cases
      case 1
      then obtain b where "c # s = substr @ b" by (auto simp add: prefix_def)
      then have "c # s = [] @ substr @ b" by simp
      then show ?thesis by blast
    next
      case 2
      with Cons obtain a b where "s = a @ substr @ b" by blast
      then have "c # s = (c # a) @ substr @ b" by simp
      then show ?thesis by blast
    qed
  next
    assume "\<exists>a b. c # s = a @ substr @ b"
    then obtain a b where ab: "c # s = a @ substr @ b" by blast
    show "strings_Contains (c # s) substr"
    proof (cases a)
      case Nil
      with ab have "prefix substr (c # s)" by (simp add: prefix_def)
      then show ?thesis by simp
    next
      case (Cons c' a')
      with ab have "s = a' @ substr @ b" by simp
      with Cons.IH have "strings_Contains s substr" by blast
      then show ?thesis by simp
    qed
  qed
qed

lemma decimal_value_snoc: "decimal_value (ds @ [c]) = 10 * decimal_value ds + (of_char c - 48)"
  by (simp add: decimal_value_def)

lemma digit_value:
  assumes "d < 10"
  shows "of_char (''0123456789'' ! d) - 48 = d"
proof -
  from assms have "d = 0 \<or> d = 1 \<or> d = 2 \<or> d = 3 \<or> d = 4 \<or> d = 5 \<or> d = 6 \<or> d = 7 \<or> d = 8 \<or> d = 9"
    by arith
  then show ?thesis
    by (elim disjE) simp_all
qed

lemma decimal_value_decimal: "decimal_value (decimal n) = n"
proof (induction n rule: decimal.induct)
  case (1 n)
  show ?case
  proof (cases "n < 10")
    case True
    then show ?thesis
      by (subst decimal.simps) (simp add: decimal_value_def digit_value)
  next
    case False
    have d: "of_char (''0123456789'' ! (n mod 10)) - 48 = n mod 10"
      by (rule digit_value) simp
    from False 1 have "decimal_value (decimal (n div 10)) = n div 10" by simp
    with False d show ?thesis
      by (subst decimal.simps) (simp add: decimal_value_snoc)
  qed
qed

lemma FormatInt_Port: "strconv_FormatInt10 (uint (p :: uint16)) = decimal (unat p)"
  by (simp add: strconv_FormatInt10_def)

text \<open>
  C3, as stated, fails. For the existing path \<open>/tmp/\<close>, which does not contain the marker,
  and port 5432, \<open>NetworkAddress\<close> gives the address \<open>/tmp/.s.PGSQL.5432\<close>, because
  \<open>filepath.Join\<close> cleans the joined path; host, marker and port written one after the other
  are \<open>/tmp//.s.PGSQL.5432\<close>.
\<close>

theorem NetworkAddress_trailing_separator_counterexample:
  "os_Stat (sample_Env []) ''/tmp/'' = None
   \<and> \<not> strings_Contains ''/tmp/'' ''/.s.PGSQL.''
   \<and> NetworkAddress (sample_Env []) (sample_ConnConfig\<lparr>Host := ''/tmp/'', Port := 5432\<rparr>) =
       (''unix'', ''/tmp/.s.PGSQL.5432'')
   \<and> NetworkAddress (sample_Env []) (sample_ConnConfig\<lparr>Host := ''/tmp/'', Port := 5432\<rparr>) \<noteq>
       (''unix'', ''/tmp/'' @ ''/.s.PGSQL.'' @ ''5432'')"
  by (simp add: NetworkAddress_def sample_Env_def sample_ConnConfig_def filepath_Join_def
        filepath_Clean_def strconv_FormatInt10_def decimal.simps)

text \<open>
  C3, amended. For every host and port: when \<open>os.Stat\<close> accepts the host and the host does
  not contain the marker \<open>/.s.PGSQL.\<close>, \<open>NetworkAddress\<close> returns \<open>unix\<close> with
  \<open>filepath.Join(host, ".s.PGSQL.")\<close> followed by the decimal port, which is the host, the
  marker and the decimal port one after the other whenever the host is a path of plain
  elements (no empty, \<open>.\<close> or \<open>..\<close> element, so no doubled or trailing separator). When
  \<open>os.Stat\<close> accepts the host and the host contains the marker, it returns \<open>unix\<close> with the
  host unchanged. When \<open>os.Stat\<close> fails, it returns \<open>tcp\<close> with host, a colon and the decimal
  port. Containing the marker means that the marker occurs in the host as a contiguous
  piece, and the decimal port reads back as the port.
\<close>

theorem NetworkAddress_cases:
  "(os_Stat env (Host cc) = None \<and> \<not> strings_Contains (Host cc) ''/.s.PGSQL.'' \<longrightarrow>
       NetworkAddress env cc =
         (''unix'', filepath_Join [Host cc, ''.s.PGSQL.''] @ decimal (unat (Port cc)))
     \<and> (plain_path (Host cc) \<longrightarrow>
          NetworkAddress env cc = (''unix'', Host cc @ ''/.s.PGSQL.'' @ decimal (unat (Port cc)))))
   \<and> (os_Stat env (Host cc) = None \<and> strings_Contains (Host cc) ''/.s.PGSQL.'' \<longrightarrow>
       NetworkAddress env cc = (''unix'', Host cc))
   \<and> (os_Stat env (Host cc) \<noteq> None \<longrightarrow>
       NetworkAddress env cc = (''tcp'', Host cc @ '':'' @ decimal (unat (Port cc))))
   \<and> (strings_Contains (Host cc) ''/.s.PGSQL.'' \<longleftrightarrow> (\<exists>a b. Host cc = a @ ''/.s.PGSQL.'' @ b))
   \<and> decimal_value (decimal (unat (Port cc))) = unat (Port cc)"
proof (intro conjI impI)
  assume "os_Stat env (Host cc) = None \<and> \<not> strings_Contains (Host cc) ''/.s.PGSQL.''"
  then show "NetworkAddress env cc =
         (''unix'', filepath_Join [Host cc, ''.s.PGSQL.''] @ decimal (unat (Port cc)))"
    by (simp add: NetworkAddress_def FormatInt_Port)
next
  assume "os_Stat env (Host cc) = None \<and> \<not> strings_Contains (Host cc) ''/.s.PGSQL.''"
    and "plain_path (Host cc)"
  then show "NetworkAddress env cc = (''unix'', Host cc @ ''/.s.PGSQL.'' @ decimal (unat (Port cc)))"
    by (simp add: NetworkAddress_def FormatInt_Port filepath_Join_plain)
next
  assume "os_Stat env (Host cc) = None \<and> strings_Contains (Host cc) ''/.s.PGSQL.''"
  then show "NetworkAddress env cc = (''unix'', Host cc)"
    by (simp add: NetworkAddress_def)
next
  assume "os_Stat env (Host cc) \<noteq> None"
  then show "NetworkAddress env cc = (''tcp'', Host cc @ '':'' @ decimal (unat (Port cc)))"
    by (simp add: NetworkAddress_def)
next
  show "strings_Contains (Host cc) ''/.s.PGSQL.'' \<longleftrightarrow> (\<exists>a b. Host cc = a @ ''/.s.PGSQL.'' @ b)"
    by (rule strings_Contains_iff)
next
  show "decimal_value (decimal (unat (Port cc))) = unat (Port cc)"
    by (rule decimal_value_decimal)
qed

theorem NetworkAddress_cases_witness:
  "os_Stat (sample_Env []) ''/tmp'' = None \<and> \<not> strings_Contains ''/tmp'' ''/.s.PGSQL.'' \<and> plain_path ''/tmp''
   \<and> NetworkAddress (sample_Env []) (sample_ConnConfig\<lparr>Port := 5432\<rparr>) = (''unix'', ''/tmp/.s.PGSQL.5432'')
   \<and> os_Stat (sample_Env []) ''/tmp/.s.PGSQL.5433'' = None \<and> strings_Contains ''/tmp/.s.PGSQL.5433'' ''/.s.PGSQL.''
   \<and> NetworkAddress (sample_Env []) (sample_ConnConfig\<lparr>Host := ''/tmp/.s.PGSQL.5433'', Port := 5432\<rparr>) =
       (''unix'', ''/tmp/.s.PGSQL.5433'')
   \<and> os_Stat (sample_Env []) ''localhost'' \<noteq> None
   \<and> NetworkAddress (sample_Env []) (sample_ConnConfig\<lparr>Host := ''localhost'', Port := 5432\<rparr>) =
       (''tcp'', ''localhost:5432'')"
  using NetworkAddress_cases [of "sample_Env []" "sample_ConnConfig\<lparr>Port := 5432\<rparr>"]
    NetworkAddress_cases [of "sample_Env []" "sample_ConnConfig\<lparr>Host := ''/tmp/.s.PGSQL.5433'', Port := 5432\<rparr>"]
    NetworkAddress_cases [of "sample_Env []" "sample_ConnConfig\<lparr>Host := ''localhost'', Port := 5432\<rparr>"]
  by (simp add: sample_Env_def sample_ConnConfig_def plain_path_def plain_elem_def
        decimal.simps filepath_Join_def filepath_Clean_def)

end
